theory Spec2Isabelle
  imports Main "HOL-Library.Option_ord"
begin

section \<open>Python values used by tool.py\<close>

text \<open>
  The exceptions that the modelled code can raise. A function that can raise returns
  \<open>py_error + 'a\<close>, with \<open>Inl\<close> for the exception.
\<close>

datatype py_error = ValueError | TypeError | IndexError | KeyError

subsection \<open>Strings\<close>

text \<open>\<^verbatim>\<open>s.startswith(p)\<close>, \<^verbatim>\<open>s.endswith(p)\<close> and \<^verbatim>\<open>sub in s\<close> on strings.\<close>

definition startswith :: "string \<Rightarrow> string \<Rightarrow> bool" where
  "startswith s p = (take (length p) s = p)"

definition endswith :: "string \<Rightarrow> string \<Rightarrow> bool" where
  "endswith s p = (length p \<le> length s \<and> drop (length s - length p) s = p)"

fun py_in :: "string \<Rightarrow> string \<Rightarrow> bool" where
  "py_in sub [] = (sub = [])"
| "py_in sub (c # s) = (startswith (c # s) sub \<or> py_in sub s)"

text \<open>
  \<^verbatim>\<open>s.split()\<close> without arguments: the maximal runs of characters that are not
  white space. A character of the model is a code point of the Python string, below 256;
  the white space among these, for \<^verbatim>\<open>split\<close> and for \<^verbatim>\<open>int\<close>, is what
  \<^verbatim>\<open>str.isspace\<close> accepts: the codes 9 to 13, 28 to 32, 133 (U+0085) and 160 (U+00A0).
  Their decimal digits are \<^verbatim>\<open>0\<close> to \<^verbatim>\<open>9\<close> alone.
\<close>

definition isspace :: "char \<Rightarrow> bool" where
  "isspace c =
     (let n = of_char c :: nat
      in (9 \<le> n \<and> n \<le> 13) \<or> (28 \<le> n \<and> n \<le> 32) \<or> n = 133 \<or> n = 160)"

fun split_loop :: "string \<Rightarrow> string \<Rightarrow> string list" where
  "split_loop cur [] = (if cur = [] then [] else [cur])"
| "split_loop cur (c # s) =
     (if isspace c then (if cur = [] then split_loop [] s else cur # split_loop [] s)
      else split_loop (cur @ [c]) s)"

definition py_split :: "string \<Rightarrow> string list" where
  "py_split s = split_loop [] s"

text \<open>
  \<^verbatim>\<open>int(s)\<close> on a string: white space around the number is dropped, then comes an
  optional sign and decimal digits, where single underscores may stand between two
  digits. Everything else raises ValueError.
\<close>

definition isdigit :: "char \<Rightarrow> bool" where
  "isdigit c = (let n = of_char c :: nat in 48 \<le> n \<and> n \<le> 57)"

definition digit_value :: "char \<Rightarrow> int" where
  "digit_value c = int (of_char c) - 48"

definition strip :: "string \<Rightarrow> string" where
  "strip s = rev (dropWhile isspace (rev (dropWhile isspace s)))"

fun digits_ok :: "string \<Rightarrow> bool" where
  "digits_ok [] = False"
| "digits_ok [c] = isdigit c"
| "digits_ok (c # d # s) =
     (isdigit c \<and> (if d = CHR ''_'' then digits_ok s else digits_ok (d # s)))"

definition digits_value :: "string \<Rightarrow> int" where
  "digits_value s = foldl (\<lambda>acc c. 10 * acc + digit_value c) 0 (filter isdigit s)"

definition py_int :: "string \<Rightarrow> py_error + int" where
  "py_int s =
     (case strip s of
        [] \<Rightarrow> Inl ValueError
      | c # r \<Rightarrow>
          if c = CHR ''-'' then (if digits_ok r then Inr (- digits_value r) else Inl ValueError)
          else if c = CHR ''+'' then (if digits_ok r then Inr (digits_value r) else Inl ValueError)
          else if digits_ok (c # r) then Inr (digits_value (c # r))
          else Inl ValueError)"

text \<open>\<^verbatim>\<open>str(n)\<close> of an integer, as the f-strings of \<^verbatim>\<open>runCMD\<close> format it.\<close>

fun str_nat :: "nat \<Rightarrow> string" where
  "str_nat n =
     (if n < 10 then [char_of (48 + n)] else str_nat (n div 10) @ [char_of (48 + n mod 10)])"

definition str_int :: "int \<Rightarrow> string" where
  "str_int i = (if i < 0 then CHR ''-'' # str_nat (nat (- i)) else str_nat (nat i))"

subsection \<open>Dictionaries\<close>

text \<open>
  A \<^verbatim>\<open>dict\<close> keeps its keys in insertion order, and \<^verbatim>\<open>min\<close> and \<^verbatim>\<open>max\<close> go
  through them in that order: the model is an association list. \<^verbatim>\<open>d[k] = v\<close>
  replaces the value of a key that is present, at its place, and appends a new key.
\<close>

type_synonym ('k, 'v) dict = "('k \<times> 'v) list"

fun dict_set :: "('k, 'v) dict \<Rightarrow> 'k \<Rightarrow> 'v \<Rightarrow> ('k, 'v) dict" where
  "dict_set [] k v = [(k, v)]"
| "dict_set ((k', v') # d) k v =
     (if k' = k then (k', v) # d else (k', v') # dict_set d k v)"

definition dict_get :: "('k, 'v) dict \<Rightarrow> 'k \<Rightarrow> 'v option" where
  "dict_get d k = map_of d k"

definition dict_getitem :: "('k, 'v) dict \<Rightarrow> 'k \<Rightarrow> py_error + 'v" where
  "dict_getitem d k = (case map_of d k of None \<Rightarrow> Inl KeyError | Some v \<Rightarrow> Inr v)"

definition dict_keys :: "('k, 'v) dict \<Rightarrow> 'k list" where
  "dict_keys d = map fst d"

text \<open>
  \<^verbatim>\<open>min(xs, key=f)\<close> and \<^verbatim>\<open>max(xs, key=f)\<close>: the first element stays unless a later one
  is strictly smaller (larger); an empty sequence raises ValueError.
\<close>

fun min_loop :: "('a \<Rightarrow> 'b::linorder) \<Rightarrow> 'a \<Rightarrow> 'a list \<Rightarrow> 'a" where
  "min_loop f best [] = best"
| "min_loop f best (x # xs) = min_loop f (if f x < f best then x else best) xs"

definition py_min :: "('a \<Rightarrow> 'b::linorder) \<Rightarrow> 'a list \<Rightarrow> py_error + 'a" where
  "py_min f xs = (case xs of [] \<Rightarrow> Inl ValueError | x # r \<Rightarrow> Inr (min_loop f x r))"

fun max_loop :: "('a \<Rightarrow> 'b::linorder) \<Rightarrow> 'a \<Rightarrow> 'a list \<Rightarrow> 'a" where
  "max_loop f best [] = best"
| "max_loop f best (x # xs) = max_loop f (if f best < f x then x else best) xs"

definition py_max :: "('a \<Rightarrow> 'b::linorder) \<Rightarrow> 'a list \<Rightarrow> py_error + 'a" where
  "py_max f xs = (case xs of [] \<Rightarrow> Inl ValueError | x # r \<Rightarrow> Inr (max_loop f x r))"

section \<open>The candidate tables\<close>

definition values_wordsize :: "int list" where
  "values_wordsize = [8, 12, 16, 24, 32, 48, 64, 96, 128, 192, 256, 273]"

definition values_dictsize :: "string list" where
  "values_dictsize =
     [''64k'', ''1m'', ''2m'', ''3m'', ''4m'',
      ''6m'', ''8m'', ''12m'', ''16m'', ''24m'',
      ''32m'', ''48m'', ''64m'', ''96m'', ''128m'',
      ''192m'', ''256m'', ''384m'', ''512m'', ''768m'',
      ''1024m'', ''1536m'']"

definition values_blocksize :: "string list" where
  "values_blocksize =
     [''=off'', ''=on'', ''1m'', ''2m'', ''3m'',
      ''4m'', ''6m'', ''8m'', ''12m'', ''16m'',
      ''32m'', ''64m'', ''128m'', ''256m'', ''512m'',
      ''1g'', ''2g'', ''4g'', ''8g'', ''16g'',
      ''32g'', ''64g'']"

section \<open>The working directory and the external processes\<close>

text \<open>
  The working directory is the list of its entries, in the order in which
  \<^verbatim>\<open>Path().glob('*')\<close> yields them (pathlib's \<open>*\<close> also matches names that start
  with a dot). An entry is a directory, a regular file with its \<^verbatim>\<open>st_size\<close>, or
  something else.
\<close>

datatype node = Directory | RegularFile nat | OtherNode

type_synonym listing = "(string \<times> node) list"

fun is_dir :: "node \<Rightarrow> bool" where
  "is_dir Directory = True"
| "is_dir _ = False"

fun is_file :: "node \<Rightarrow> bool" where
  "is_file (RegularFile _) = True"
| "is_file _ = False"

fun st_size :: "node \<Rightarrow> int" where
  "st_size (RegularFile n) = int n"
| "st_size _ = 0"

text \<open>
  The state of a run: the working directory, and the argument vector of every compressor
  process started so far, oldest first. Output written by \<^verbatim>\<open>print\<close> is not part of
  the state.
\<close>

record world =
  entries :: listing
  calls :: "string list list"

text \<open>
  The compressor is an external program: given its argument vector and the working
  directory it exits with a status and leaves a working directory behind. The disk-usage
  probe \<^verbatim>\<open>du -sm */\<close> is external too: given the working directory it prints lines.
  Both are parameters of the model.
\<close>

type_synonym compressor = "string list \<Rightarrow> listing \<Rightarrow> int \<times> listing"

type_synonym probe = "listing \<Rightarrow> string list"

text \<open>
  \<^verbatim>\<open>subprocess.run(cmd, stdout=subprocess.DEVNULL)\<close>: the process runs to its end and its
  exit status is returned in the result object; there is no \<^verbatim>\<open>check=True\<close>. A binary
  that cannot be started is outside the model: the module ends at import time when
  \<^verbatim>\<open>shutil.which('7z')\<close> finds none.
\<close>

definition subprocess_run :: "compressor \<Rightarrow> string list \<Rightarrow> world \<Rightarrow> int \<times> world" where
  "subprocess_run proc cmd w =
     (let (returncode, es) = proc cmd (entries w)
      in (returncode, \<lparr>entries = es, calls = calls w @ [cmd]\<rparr>))"

section \<open>Listing, removing and measuring\<close>

text \<open>
  \<^verbatim>\<open>directories\<close>: the names of the entries that are directories, do not start with a
  dot and are not \<^verbatim>\<open>venv\<close>.
\<close>

definition directories :: "listing \<Rightarrow> string list" where
  "directories es =
     map fst (filter (\<lambda>(name, n). is_dir n \<and> \<not> startswith name ''.'' \<and> name \<noteq> ''venv'') es)"

definition removeArchives :: "world \<Rightarrow> world" where
  "removeArchives w =
     w\<lparr>entries := filter (\<lambda>(name, n). \<not> (is_file n \<and> endswith name ''.7z'')) (entries w)\<rparr>"

definition getTotalSizeOfArchives :: "world \<Rightarrow> int" where
  "getTotalSizeOfArchives w =
     foldl (\<lambda>total_size (name, n).
              if is_file n \<and> endswith name ''.7z'' then total_size + st_size n else total_size)
       0 (entries w)"

section \<open>The largest directory and the two bounds\<close>

text \<open>
  The loop of \<^verbatim>\<open>getLargestDirectorySize\<close> over the lines of the probe. \<^verbatim>\<open>size[1]\<close>
  raises IndexError on a line with fewer than two fields.
\<close>

fun getLargestDirectorySize_loop ::
  "string list \<Rightarrow> (string, int) dict \<Rightarrow> py_error + (string, int) dict" where
  "getLargestDirectorySize_loop [] sizes = Inr sizes"
| "getLargestDirectorySize_loop (line # rest) sizes =
     (let sz = py_split line in
      if length sz < 2 then Inl IndexError
      else if py_in ''venv'' (sz ! 1) then getLargestDirectorySize_loop rest sizes
      else (case py_int (sz ! 0) of
              Inl e \<Rightarrow> Inl e
            | Inr n \<Rightarrow> getLargestDirectorySize_loop rest (dict_set sizes (butlast (sz ! 1)) n)))"

definition getLargestDirectorySize :: "probe \<Rightarrow> world \<Rightarrow> py_error + int" where
  "getLargestDirectorySize du w =
     (case getLargestDirectorySize_loop (du (entries w)) [] of
        Inl e \<Rightarrow> Inl e
      | Inr sizes \<Rightarrow>
          (case py_max (dict_get sizes) (dict_keys sizes) of
             Inl e \<Rightarrow> Inl e
           | Inr largest \<Rightarrow> dict_getitem sizes largest))"

text \<open>
  Both bound functions fall off their loop when no candidate qualifies, and then return
  Python's \<^verbatim>\<open>None\<close>: the result is an \<open>int option\<close>.
\<close>

fun minimumLargestDictSize_loop :: "string list \<Rightarrow> int \<Rightarrow> py_error + int option" where
  "minimumLargestDictSize_loop [] largest = Inr None"
| "minimumLargestDictSize_loop (sz # sizes) largest =
     (if py_in ''m'' sz then
        (case py_int (butlast sz) of
           Inl e \<Rightarrow> Inl e
         | Inr n \<Rightarrow> if n > largest then Inr (Some n)
                    else minimumLargestDictSize_loop sizes largest)
      else minimumLargestDictSize_loop sizes largest)"

definition minimumLargestDictSize :: "probe \<Rightarrow> world \<Rightarrow> py_error + int option" where
  "minimumLargestDictSize du w =
     (case getLargestDirectorySize du w of
        Inl e \<Rightarrow> Inl e
      | Inr largest \<Rightarrow> minimumLargestDictSize_loop values_dictsize largest)"

fun minimumLargestBlockSize_loop :: "string list \<Rightarrow> int \<Rightarrow> py_error + int option" where
  "minimumLargestBlockSize_loop [] largest_dirsize = Inr None"
| "minimumLargestBlockSize_loop (sz # sizes) largest_dirsize =
     (if endswith sz ''m'' \<or> endswith sz ''g'' then
        (if largest_dirsize < 1024 then
           (case py_int (butlast sz) of
              Inl e \<Rightarrow> Inl e
            | Inr n \<Rightarrow> if n > largest_dirsize then Inr (Some n)
                       else minimumLargestBlockSize_loop sizes largest_dirsize)
         else minimumLargestBlockSize_loop sizes largest_dirsize)
      else minimumLargestBlockSize_loop sizes largest_dirsize)"

definition minimumLargestBlockSize :: "probe \<Rightarrow> world \<Rightarrow> py_error + int option" where
  "minimumLargestBlockSize du w =
     (case getLargestDirectorySize du w of
        Inl e \<Rightarrow> Inl e
      | Inr largest_dirsize \<Rightarrow> minimumLargestBlockSize_loop values_blocksize largest_dirsize)"

section \<open>smallestSize\<close>

text \<open>
  \<^verbatim>\<open>smallest = min(data, key=data.get); return (smallest, data[smallest])\<close>
\<close>

definition smallestSize :: "('k, int) dict \<Rightarrow> py_error + ('k \<times> int)" where
  "smallestSize data =
     (case py_min (dict_get data) (dict_keys data) of
        Inl e \<Rightarrow> Inl e
      | Inr smallest \<Rightarrow>
          (case dict_getitem data smallest of
             Inl e \<Rightarrow> Inl e
           | Inr v \<Rightarrow> Inr (smallest, v)))"

section \<open>runCMD\<close>

text \<open>
  \<^verbatim>\<open>cmd.index('--')\<close> is the position of the first \<^verbatim>\<open>'--'\<close> and raises ValueError
  when there is none; \<^verbatim>\<open>cmd.insert(i, x)\<close> puts \<open>x\<close> before position \<open>i\<close>.
\<close>

definition py_index :: "'a list \<Rightarrow> 'a \<Rightarrow> py_error + nat" where
  "py_index xs x =
     (if x \<in> set xs then Inr (length (takeWhile (\<lambda>y. y \<noteq> x) xs)) else Inl ValueError)"

definition py_insert :: "'a list \<Rightarrow> nat \<Rightarrow> 'a \<Rightarrow> 'a list" where
  "py_insert xs i x = take i xs @ x # drop i xs"

text \<open>
  The four \<^verbatim>\<open>if param: param = f'-xx{param}'; cmd.insert(cmd.index('--'), param)\<close>
  blocks. A parameter is a string or an integer, or \<^verbatim>\<open>None\<close>; the empty string and
  zero are false as \<^verbatim>\<open>None\<close> is.
\<close>

fun flag_str :: "string \<Rightarrow> string option \<Rightarrow> string option" where
  "flag_str opt None = None"
| "flag_str opt (Some s) = (if s = [] then None else Some (opt @ s))"

fun flag_int :: "string \<Rightarrow> int option \<Rightarrow> string option" where
  "flag_int opt None = None"
| "flag_int opt (Some i) = (if i = 0 then None else Some (opt @ str_int i))"

definition insert_flag :: "string option \<Rightarrow> string list \<Rightarrow> py_error + string list" where
  "insert_flag flag cmd =
     (case flag of
        None \<Rightarrow> Inr cmd
      | Some f \<Rightarrow>
          (case py_index cmd ''--'' of
             Inl e \<Rightarrow> Inl e
           | Inr i \<Rightarrow> Inr (py_insert cmd i f)))"

text \<open>
  The loop over the directories: the archive name and the directory name are appended,
  the process runs and its result object is dropped, and \<^verbatim>\<open>del cmd[-2:]\<close> removes the
  last two arguments (all of them, when there are fewer).
\<close>

fun runCMD_loop :: "compressor \<Rightarrow> string list \<Rightarrow> string list \<Rightarrow> world \<Rightarrow> string list \<times> world" where
  "runCMD_loop proc [] cmd w = (cmd, w)"
| "runCMD_loop proc (name # dirs) cmd w =
     (let cmd1 = cmd @ [name @ ''.7z'', name];
          (returncode, w1) = subprocess_run proc cmd1 w;
          cmd2 = take (length cmd1 - 2) cmd1
      in runCMD_loop proc dirs cmd2 w1)"

text \<open>
  \<open>path_7z\<close> is the module's \<^verbatim>\<open>_7z_path\<close>, the result of \<^verbatim>\<open>shutil.which('7z')\<close>.
  The directories are listed when the loop starts.
\<close>

definition runCMD ::
  "compressor \<Rightarrow> string \<Rightarrow> string option \<Rightarrow> int option \<Rightarrow> string option \<Rightarrow> int option
     \<Rightarrow> world \<Rightarrow> py_error + world" where
  "runCMD proc path_7z dict_size word_size block_size threads w =
     (case insert_flag (flag_str ''-md'' dict_size) [path_7z, ''a'', ''-mx9'', ''--''] of
        Inl e \<Rightarrow> Inl e
      | Inr cmd1 \<Rightarrow>
     (case insert_flag (flag_int ''-mfb'' word_size) cmd1 of
        Inl e \<Rightarrow> Inl e
      | Inr cmd2 \<Rightarrow>
     (case insert_flag (flag_str ''-ms'' block_size) cmd2 of
        Inl e \<Rightarrow> Inl e
      | Inr cmd3 \<Rightarrow>
     (case insert_flag (flag_int ''-mmt'' threads) cmd3 of
        Inl e \<Rightarrow> Inl e
      | Inr cmd4 \<Rightarrow> Inr (snd (runCMD_loop proc (directories (entries w)) cmd4 w))))))"

section \<open>The four sweeps\<close>

text \<open>
  Each sweep is a loop over a candidate table that carries the result table \<open>info\<close> and
  the state. A \<^verbatim>\<open>break\<close> ends the loop with the table as it is.

  The test of the dictionary sweep, \<^verbatim>\<open>int(size[:-1]) > largestDictSize\<close>: the left side
  is evaluated first, and comparing an integer with \<^verbatim>\<open>None\<close> raises TypeError.
\<close>

definition testAllDictSizes_break :: "string \<Rightarrow> int option \<Rightarrow> py_error + bool" where
  "testAllDictSizes_break sz largestDictSize =
     (case py_int (butlast sz) of
        Inl e \<Rightarrow> Inl e
      | Inr n \<Rightarrow> (case largestDictSize of None \<Rightarrow> Inl TypeError | Some b \<Rightarrow> Inr (n > b)))"

fun testAllDictSizes_loop ::
  "compressor \<Rightarrow> string \<Rightarrow> int option \<Rightarrow> string list \<Rightarrow> (string, int) dict \<Rightarrow> world
     \<Rightarrow> py_error + ((string, int) dict \<times> world)" where
  "testAllDictSizes_loop proc path_7z largestDictSize [] info w = Inr (info, w)"
| "testAllDictSizes_loop proc path_7z largestDictSize (sz # rest) info w =
     (case testAllDictSizes_break sz largestDictSize of
        Inl e \<Rightarrow> Inl e
      | Inr True \<Rightarrow> Inr (info, w)
      | Inr False \<Rightarrow>
          (case runCMD proc path_7z (Some sz) None None None w of
             Inl e \<Rightarrow> Inl e
           | Inr w1 \<Rightarrow>
               testAllDictSizes_loop proc path_7z largestDictSize rest
                 (dict_set info sz (getTotalSizeOfArchives w1)) (removeArchives w1)))"

definition testAllDictSizes ::
  "compressor \<Rightarrow> probe \<Rightarrow> string \<Rightarrow> world \<Rightarrow> py_error + ((string, int) dict \<times> world)" where
  "testAllDictSizes proc du path_7z w =
     (case minimumLargestDictSize du w of
        Inl e \<Rightarrow> Inl e
      | Inr largestDictSize \<Rightarrow>
          testAllDictSizes_loop proc path_7z largestDictSize values_dictsize [] w)"

fun testAllWordSizes_loop ::
  "compressor \<Rightarrow> string \<Rightarrow> string option \<Rightarrow> int list \<Rightarrow> (int, int) dict \<Rightarrow> world
     \<Rightarrow> py_error + ((int, int) dict \<times> world)" where
  "testAllWordSizes_loop proc path_7z dict_size [] info w = Inr (info, w)"
| "testAllWordSizes_loop proc path_7z dict_size (sz # rest) info w =
     (case runCMD proc path_7z dict_size (Some sz) None None w of
        Inl e \<Rightarrow> Inl e
      | Inr w1 \<Rightarrow>
          testAllWordSizes_loop proc path_7z dict_size rest
            (dict_set info sz (getTotalSizeOfArchives w1)) (removeArchives w1))"

definition testAllWordSizes ::
  "compressor \<Rightarrow> string \<Rightarrow> string option \<Rightarrow> world \<Rightarrow> py_error + ((int, int) dict \<times> world)" where
  "testAllWordSizes proc path_7z dict_size w =
     testAllWordSizes_loop proc path_7z dict_size values_wordsize [] w"

text \<open>
  The test of the block sweep is made for the candidates that end in \<^verbatim>\<open>m\<close> only.
\<close>

definition testAllBlockSizes_break :: "string \<Rightarrow> int option \<Rightarrow> py_error + bool" where
  "testAllBlockSizes_break sz largestBlockSize =
     (if endswith sz ''m'' then
        (case py_int (butlast sz) of
           Inl e \<Rightarrow> Inl e
         | Inr n \<Rightarrow> (case largestBlockSize of None \<Rightarrow> Inl TypeError | Some b \<Rightarrow> Inr (n > b)))
      else Inr False)"

fun testAllBlockSizes_loop ::
  "compressor \<Rightarrow> string \<Rightarrow> string option \<Rightarrow> int option \<Rightarrow> int option \<Rightarrow> string list
     \<Rightarrow> (string, int) dict \<Rightarrow> world \<Rightarrow> py_error + ((string, int) dict \<times> world)" where
  "testAllBlockSizes_loop proc path_7z dict_size word_size largestBlockSize [] info w =
     Inr (info, w)"
| "testAllBlockSizes_loop proc path_7z dict_size word_size largestBlockSize (sz # rest) info w =
     (case testAllBlockSizes_break sz largestBlockSize of
        Inl e \<Rightarrow> Inl e
      | Inr True \<Rightarrow> Inr (info, w)
      | Inr False \<Rightarrow>
          (case runCMD proc path_7z dict_size word_size (Some sz) None w of
             Inl e \<Rightarrow> Inl e
           | Inr w1 \<Rightarrow>
               testAllBlockSizes_loop proc path_7z dict_size word_size largestBlockSize rest
                 (dict_set info sz (getTotalSizeOfArchives w1)) (removeArchives w1)))"

definition testAllBlockSizes ::
  "compressor \<Rightarrow> probe \<Rightarrow> string \<Rightarrow> string option \<Rightarrow> int option \<Rightarrow> world
     \<Rightarrow> py_error + ((string, int) dict \<times> world)" where
  "testAllBlockSizes proc du path_7z dict_size word_size w =
     (case minimumLargestBlockSize du w of
        Inl e \<Rightarrow> Inl e
      | Inr largestBlockSize \<Rightarrow>
          testAllBlockSizes_loop proc path_7z dict_size word_size largestBlockSize
            values_blocksize [] w)"

text \<open>
  \<^verbatim>\<open>reversed(range(1, os.cpu_count() + 1))\<close>: \<^verbatim>\<open>os.cpu_count()\<close> is a parameter of the
  model; it can be \<^verbatim>\<open>None\<close>, and then the addition raises TypeError.
\<close>

fun testNThreads_loop ::
  "compressor \<Rightarrow> string \<Rightarrow> string option \<Rightarrow> int option \<Rightarrow> string option \<Rightarrow> int list
     \<Rightarrow> (int, int) dict \<Rightarrow> world \<Rightarrow> py_error + ((int, int) dict \<times> world)" where
  "testNThreads_loop proc path_7z dict_size word_size block_size [] info w = Inr (info, w)"
| "testNThreads_loop proc path_7z dict_size word_size block_size (i # rest) info w =
     (case runCMD proc path_7z dict_size word_size block_size (Some i) w of
        Inl e \<Rightarrow> Inl e
      | Inr w1 \<Rightarrow>
          testNThreads_loop proc path_7z dict_size word_size block_size rest
            (dict_set info i (getTotalSizeOfArchives w1)) (removeArchives w1))"

definition testNThreads ::
  "compressor \<Rightarrow> int option \<Rightarrow> string \<Rightarrow> string option \<Rightarrow> int option \<Rightarrow> string option \<Rightarrow> world
     \<Rightarrow> py_error + ((int, int) dict \<times> world)" where
  "testNThreads proc cpu_count path_7z dict_size word_size block_size w =
     (case cpu_count of
        None \<Rightarrow> Inl TypeError
      | Some n \<Rightarrow>
          testNThreads_loop proc path_7z dict_size word_size block_size (rev [1..n]) [] w)"

section \<open>main\<close>

text \<open>
  The result of \<^verbatim>\<open>main\<close> is the four winning entries and the state after the last
  compression.
\<close>

definition main ::
  "compressor \<Rightarrow> probe \<Rightarrow> int option \<Rightarrow> string \<Rightarrow> world
     \<Rightarrow> py_error + (((string \<times> int) \<times> (int \<times> int) \<times> (string \<times> int) \<times> (int \<times> int)) \<times> world)" where
  "main proc du cpu_count path_7z w =
     (let w0 = removeArchives w in
      case testAllDictSizes proc du path_7z w0 of Inl e \<Rightarrow> Inl e | Inr (dict_info, w1) \<Rightarrow>
      (case smallestSize dict_info of Inl e \<Rightarrow> Inl e | Inr dict_best \<Rightarrow>
      (case testAllWordSizes proc path_7z (Some (fst dict_best)) w1 of
         Inl e \<Rightarrow> Inl e | Inr (word_info, w2) \<Rightarrow>
      (case smallestSize word_info of Inl e \<Rightarrow> Inl e | Inr word_best \<Rightarrow>
      (case testAllBlockSizes proc du path_7z (Some (fst dict_best)) (Some (fst word_best)) w2 of
         Inl e \<Rightarrow> Inl e | Inr (block_info, w3) \<Rightarrow>
      (case smallestSize block_info of Inl e \<Rightarrow> Inl e | Inr block_best \<Rightarrow>
      (case testNThreads proc cpu_count path_7z (Some (fst dict_best)) (Some (fst word_best))
              (Some (fst block_best)) w3 of
         Inl e \<Rightarrow> Inl e | Inr (thread_info, w4) \<Rightarrow>
      (case smallestSize thread_info of Inl e \<Rightarrow> Inl e | Inr thread_best \<Rightarrow>
      (case runCMD proc path_7z (Some (fst dict_best)) (Some (fst word_best))
              (Some (fst block_best)) (Some (fst thread_best)) w4 of
         Inl e \<Rightarrow> Inl e
       | Inr w5 \<Rightarrow> Inr ((dict_best, word_best, block_best, thread_best), w5))))))))))"

section \<open>Archives and a sample environment\<close>

text \<open>
  The names of the files that \<^verbatim>\<open>removeArchives\<close> and \<^verbatim>\<open>getTotalSizeOfArchives\<close> select:
  the regular files whose name ends in \<^verbatim>\<open>.7z\<close>.
\<close>

definition archives :: "world \<Rightarrow> string list" where
  "archives w = map fst (filter (\<lambda>(name, n). is_file n \<and> endswith name ''.7z'') (entries w))"

text \<open>
  A concrete environment for the closed theorems: a working directory with the
  directories \<^verbatim>\<open>A\<close> and \<^verbatim>\<open>B\<close>; a probe that prints the given number of megabytes for
  \<^verbatim>\<open>A\<close> and 5 for \<^verbatim>\<open>B\<close>, a tabulator between size and path; a compressor that writes
  the archive named by its last argument but one, 7 bytes long, and exits with status 0;
  and a compressor that writes nothing and exits with status 2.
\<close>

definition sample_world :: world where
  "sample_world = \<lparr>entries = [(''A'', Directory), (''B'', Directory)], calls = []\<rparr>"

definition sample_du :: "string \<Rightarrow> probe" where
  "sample_du megabytes es = [megabytes @ [CHR 0x09] @ ''A/'', ''5'' @ [CHR 0x09] @ ''B/'']"

definition sample_7z :: compressor where
  "sample_7z cmd es =
     (let archive = cmd ! (length cmd - 2)
      in (0, filter (\<lambda>(name, n). name \<noteq> archive) es @ [(archive, RegularFile 7)]))"

definition failing_7z :: compressor where
  "failing_7z cmd es = (2, es)"

text \<open>
  For a compressor \<open>proc\<close>, the compressor that leaves the same working directory behind
  and always exits with status 0.
\<close>

definition exits_zero :: "compressor \<Rightarrow> compressor" where
  "exits_zero proc cmd es = (0, snd (proc cmd es))"

text \<open>
  The total size of the regular files whose name ends in \<^verbatim>\<open>.7z\<close>, as the
  specification words what a sweep records.
\<close>

definition archive_bytes :: "world \<Rightarrow> int" where
  "archive_bytes w =
     sum_list (map (\<lambda>(name, n). st_size n)
       (filter (\<lambda>(name, n). is_file n \<and> endswith name ''.7z'') (entries w)))"

text \<open>
  A compressor that writes the archive as \<open>sample_7z\<close> does and exits with status 1, and a
  working directory in which an archive of an earlier run is left.
\<close>

definition warning_7z :: compressor where
  "warning_7z cmd es = (1, snd (sample_7z cmd es))"

definition stale_world :: world where
  "stale_world =
     \<lparr>entries = [(''A'', Directory), (''old.7z'', RegularFile 100), (''B'', Directory)],
      calls = []\<rparr>"

text \<open>The probe that prints the given lines, whatever the working directory.\<close>

definition lines_du :: "string list \<Rightarrow> probe" where
  "lines_du ls es = ls"

section \<open>The command line as the specification words it\<close>

text \<open>
  \<^verbatim>\<open><binary> a -mx9 [-md<dict>] [-mfb<word>] [-ms<block>] [-mmt<threads>] -- <archive> <directory>\<close>,
  with a flag for each parameter that is given and is neither empty nor zero.
\<close>

definition spec_command ::
  "string \<Rightarrow> string option \<Rightarrow> int option \<Rightarrow> string option \<Rightarrow> int option \<Rightarrow> string \<Rightarrow> string list"
  where
  "spec_command binary dict_size word_size block_size threads directory =
     [binary, ''a'', ''-mx9'']
     @ (case dict_size of None \<Rightarrow> [] | Some s \<Rightarrow> if s = [] then [] else [''-md'' @ s])
     @ (case word_size of None \<Rightarrow> [] | Some i \<Rightarrow> if i = 0 then [] else [''-mfb'' @ str_int i])
     @ (case block_size of None \<Rightarrow> [] | Some s \<Rightarrow> if s = [] then [] else [''-ms'' @ s])
     @ (case threads of None \<Rightarrow> [] | Some i \<Rightarrow> if i = 0 then [] else [''-mmt'' @ str_int i])
     @ [''--'', directory @ ''.7z'', directory]"

section \<open>The selection of the smallest entry\<close>

lemma min_loop_le_best: "f (min_loop f best xs) \<le> f best"
proof (induction xs arbitrary: best)
  case Nil
  show ?case by simp
next
  case (Cons y ys)
  have "f (min_loop f (if f y < f best then y else best) ys) \<le> f (if f y < f best then y else best)"
    by (rule Cons.IH)
  also have "\<dots> \<le> f best" by auto
  finally show ?case by simp
qed

lemma min_loop_le: "x \<in> set xs \<Longrightarrow> f (min_loop f best xs) \<le> f x"
proof (induction xs arbitrary: best)
  case Nil
  then show ?case by simp
next
  case (Cons y ys)
  show ?case
  proof (cases "x = y")
    case True
    have "f (min_loop f (if f y < f best then y else best) ys) \<le> f (if f y < f best then y else best)"
      by (rule min_loop_le_best)
    also have "\<dots> \<le> f y" by auto
    finally show ?thesis using True by simp
  next
    case False
    with Cons.prems have "x \<in> set ys" by simp
    then show ?thesis using Cons.IH by simp
  qed
qed

lemma min_loop_first:
  "\<exists>pre post. best # xs = pre @ min_loop f best xs # post \<and> (\<forall>p \<in> set pre. f (min_loop f best xs) < f p)"
proof (induction xs arbitrary: best)
  case Nil
  have "[best] = [] @ min_loop f best [] # [] \<and> (\<forall>p \<in> set []. f (min_loop f best []) < f p)" by simp
  then show ?case by blast
next
  case (Cons y ys)
  show ?case
  proof (cases "f y < f best")
    case True
    then have eq: "min_loop f best (y # ys) = min_loop f y ys" by simp
    from Cons.IH[of y] obtain pre post where
      h: "y # ys = pre @ min_loop f y ys # post" "\<forall>p \<in> set pre. f (min_loop f y ys) < f p" by blast
    have "f (min_loop f y ys) \<le> f y" by (rule min_loop_le_best)
    with True have "f (min_loop f y ys) < f best" by simp
    with h have "best # y # ys = (best # pre) @ min_loop f y ys # post \<and> (\<forall>p \<in> set (best # pre). f (min_loop f y ys) < f p)"
      by simp
    then show ?thesis unfolding eq by blast
  next
    case False
    then have eq: "min_loop f best (y # ys) = min_loop f best ys" by simp
    from Cons.IH[of best] obtain pre post where
      h: "best # ys = pre @ min_loop f best ys # post" "\<forall>p \<in> set pre. f (min_loop f best ys) < f p" by blast
    show ?thesis
    proof (cases pre)
      case Nil
      with h(1) have "best = min_loop f best ys" by (metis append_Nil list.inject)
      then have "min_loop f best ys = best" by (rule sym)
      then have "best # y # ys = [] @ min_loop f best ys # (y # ys)" by simp
      then show ?thesis unfolding eq by (metis empty_iff list.set(1))
    next
      case (Cons b pre')
      from h(1) have "best # ys = b # (pre' @ min_loop f best ys # post)"
        unfolding Cons by (simp only: append_Cons)
      then have b: "b = best" and ys: "ys = pre' @ min_loop f best ys # post" by blast+
      from h Cons b have "f (min_loop f best ys) < f best" by simp
      with False have "f (min_loop f best ys) < f y" by simp
      with h Cons b have "\<forall>p \<in> set (best # y # pre'). f (min_loop f best ys) < f p" by simp
      moreover have "best # y # ys = (best # y # pre') @ min_loop f best ys # post" using ys by simp
      ultimately show ?thesis unfolding eq by blast
    qed
  qed
qed


lemma dict_get_distinct:
  "distinct (map fst d) \<Longrightarrow> (k, v) \<in> set d \<Longrightarrow> dict_get d k = Some v"
  by (simp add: dict_get_def)

text \<open>
  Claim C5. For every non-empty result table, \<open>smallestSize\<close> returns an entry of the
  table whose size is at most the size of every entry, and it is the first such entry in
  insertion order: every entry before it has a strictly larger size. A table is a
  dictionary, so its keys are distinct.
\<close>

theorem smallestSize_first_minimum:
  assumes ne: "data \<noteq> []" and dist: "distinct (dict_keys data)"
  shows "\<exists>k v pre post. smallestSize data = Inr (k, v) \<and> data = pre @ (k, v) # post
           \<and> (\<forall>(k', v') \<in> set data. v \<le> v') \<and> (\<forall>(k', v') \<in> set pre. v < v')"
proof -
  from ne obtain k0 ks where keys: "map fst data = k0 # ks" by (cases data) auto
  define m where "m = min_loop (dict_get data) k0 ks"
  from min_loop_first[of k0 ks "dict_get data"] obtain kpre kpost where
    split: "k0 # ks = kpre @ m # kpost" and
    before: "\<forall>p \<in> set kpre. dict_get data m < dict_get data p"
    unfolding m_def by blast
  from split keys have "map fst data = kpre @ m # kpost" by simp
  then obtain pre e post where data: "data = pre @ e # post" and pre: "map fst pre = kpre"
    and e: "fst e = m"
    by (auto simp: map_eq_append_conv map_eq_Cons_conv)
  obtain v where ev: "e = (m, v)" using e by (cases e) auto
  from dist have d: "distinct (map fst data)" by (simp add: dict_keys_def)
  have get: "\<And>k' v'. (k', v') \<in> set data \<Longrightarrow> dict_get data k' = Some v'"
    using d by (rule dict_get_distinct)
  have gm: "dict_get data m = Some v" using get[of m v] data ev by simp
  have res: "smallestSize data = Inr (m, v)"
    using keys gm by (simp add: smallestSize_def py_min_def dict_keys_def dict_getitem_def
        dict_get_def m_def)
  have all: "\<forall>(k', v') \<in> set data. v \<le> v'"
  proof (clarify)
    fix k' v' assume in_data: "(k', v') \<in> set data"
    then have "k' \<in> set (k0 # ks)" using keys by (metis fst_conv image_eqI set_map)
    then have "dict_get data m \<le> dict_get data k'"
      unfolding m_def using min_loop_le[of k' ks "dict_get data" k0]
        min_loop_le_best[of "dict_get data" k0 ks] by auto
    with gm get[OF in_data] show "v \<le> v'" by simp
  qed
  have first: "\<forall>(k', v') \<in> set pre. v < v'"
  proof (clarify)
    fix k' v' assume in_pre: "(k', v') \<in> set pre"
    then have "k' \<in> set kpre" using pre by (metis fst_conv image_eqI set_map)
    with before have "dict_get data m < dict_get data k'" by simp
    moreover have "(k', v') \<in> set data" using in_pre data by simp
    ultimately show "v < v'" using gm get by simp
  qed
  from res data ev all first show ?thesis by blast
qed

theorem smallestSize_first_minimum_witness:
  "[(''1m'', 5), (''2m'', 3), (''3m'', 3::int)] \<noteq> []
   \<and> distinct (dict_keys [(''1m'', 5), (''2m'', 3), (''3m'', 3::int)])
   \<and> smallestSize [(''1m'', 5), (''2m'', 3), (''3m'', 3)] = Inr (''2m'', 3)
   \<and> (\<exists>k v pre post. smallestSize [(''1m'', 5), (''2m'', 3), (''3m'', 3)] = Inr (k, v)
         \<and> [(''1m'', 5), (''2m'', 3), (''3m'', 3)] = pre @ (k, v) # post
         \<and> (\<forall>(k', v') \<in> set [(''1m'', 5), (''2m'', 3), (''3m'', 3)]. v \<le> v')
         \<and> (\<forall>(k', v') \<in> set pre. v < v'))"
proof -
  let ?d = "[(''1m'', 5), (''2m'', 3), (''3m'', 3::int)]"
  have ne: "?d \<noteq> []" by simp
  have dist: "distinct (dict_keys ?d)" by (simp add: dict_keys_def)
  have val: "smallestSize ?d = Inr (''2m'', 3)" by code_simp
  from ne dist val smallestSize_first_minimum[OF ne dist] show ?thesis by blast
qed

text \<open>
  Claim C9. On the empty table \<open>smallestSize\<close> raises the ValueError of \<^verbatim>\<open>min\<close> on an
  empty sequence; no pair and no default is returned.
\<close>

theorem smallestSize_empty: "smallestSize [] = Inl ValueError"
  by (simp add: smallestSize_def py_min_def dict_keys_def)

section \<open>The command line of runCMD\<close>

lemma runCMD_loop_calls:
  "runCMD_loop proc dirs cmd w =
     (cmd, snd (runCMD_loop proc dirs cmd w)) \<and>
   calls (snd (runCMD_loop proc dirs cmd w)) =
     calls w @ map (\<lambda>name. cmd @ [name @ ''.7z'', name]) dirs"
proof (induction dirs arbitrary: w)
  case Nil
  show ?case by simp
next
  case (Cons name dirs)
  obtain rc es where p: "proc (cmd @ [name @ ''.7z'', name]) (entries w) = (rc, es)"
    by (cases "proc (cmd @ [name @ ''.7z'', name]) (entries w)")
  let ?w1 = "\<lparr>entries = es, calls = calls w @ [cmd @ [name @ ''.7z'', name]]\<rparr>"
  have step: "runCMD_loop proc (name # dirs) cmd w = runCMD_loop proc dirs cmd ?w1"
    by (simp add: subprocess_run_def p)
  show ?case unfolding step using Cons.IH[of ?w1] by simp
qed

lemma takeWhile_until: "x \<notin> set pre \<Longrightarrow> takeWhile (\<lambda>y. y \<noteq> x) (pre @ x # r) = pre"
  by (induction pre) auto

lemma insert_flag_before_dashes:
  assumes "''--'' \<notin> set pre"
  shows "insert_flag flag (pre @ [''--'']) =
           Inr (pre @ (case flag of None \<Rightarrow> [] | Some f \<Rightarrow> [f]) @ [''--''])"
proof (cases flag)
  case None
  then show ?thesis by (simp add: insert_flag_def)
next
  case (Some f)
  have tw: "takeWhile (\<lambda>y. y \<noteq> ''--'') (pre @ [''--'']) = pre"
    using assms by (rule takeWhile_until)
  have "py_index (pre @ [''--'']) ''--'' = Inr (length pre)"
    unfolding py_index_def tw by simp
  then show ?thesis using Some by (simp add: insert_flag_def py_insert_def)
qed

lemma flag_str_not_dashes: "flag_str (CHR ''-'' # CHR ''m'' # r) x = Some f \<Longrightarrow> f \<noteq> ''--''"
  by (cases x) (auto split: if_splits)

lemma flag_int_not_dashes: "flag_int (CHR ''-'' # CHR ''m'' # r) x = Some f \<Longrightarrow> f \<noteq> ''--''"
  by (cases x) (auto split: if_splits)

lemma flag_str_spec:
  "(case flag_str opt x of None \<Rightarrow> [] | Some f \<Rightarrow> [f]) =
   (case x of None \<Rightarrow> [] | Some s \<Rightarrow> if s = [] then [] else [opt @ s])"
  by (cases x) auto

lemma flag_int_spec:
  "(case flag_int opt x of None \<Rightarrow> [] | Some f \<Rightarrow> [f]) =
   (case x of None \<Rightarrow> [] | Some i \<Rightarrow> if i = 0 then [] else [opt @ str_int i])"
  by (cases x) auto

lemma flag_list_no_dashes_str:
  "''--'' \<notin> set (case flag_str (CHR ''-'' # CHR ''m'' # r) x of None \<Rightarrow> [] | Some f \<Rightarrow> [f])"
  using flag_str_not_dashes[of r x] by (cases "flag_str (CHR ''-'' # CHR ''m'' # r) x") auto

lemma flag_list_no_dashes_int:
  "''--'' \<notin> set (case flag_int (CHR ''-'' # CHR ''m'' # r) x of None \<Rightarrow> [] | Some f \<Rightarrow> [f])"
  using flag_int_not_dashes[of r x] by (cases "flag_int (CHR ''-'' # CHR ''m'' # r) x") auto

lemma runCMD_Inr:
  assumes "path_7z \<noteq> ''--''"
  shows "runCMD proc path_7z d ws b t w =
     Inr (snd (runCMD_loop proc (directories (entries w))
        ([path_7z, ''a'', ''-mx9'']
          @ (case flag_str ''-md'' d of None \<Rightarrow> [] | Some f \<Rightarrow> [f])
          @ (case flag_int ''-mfb'' ws of None \<Rightarrow> [] | Some f \<Rightarrow> [f])
          @ (case flag_str ''-ms'' b of None \<Rightarrow> [] | Some f \<Rightarrow> [f])
          @ (case flag_int ''-mmt'' t of None \<Rightarrow> [] | Some f \<Rightarrow> [f])
          @ [''--'']) w))"
proof -
  let ?f1 = "case flag_str ''-md'' d of None \<Rightarrow> [] | Some f \<Rightarrow> [f]"
  let ?f2 = "case flag_int ''-mfb'' ws of None \<Rightarrow> [] | Some f \<Rightarrow> [f]"
  let ?f3 = "case flag_str ''-ms'' b of None \<Rightarrow> [] | Some f \<Rightarrow> [f]"
  let ?f4 = "case flag_int ''-mmt'' t of None \<Rightarrow> [] | Some f \<Rightarrow> [f]"
  let ?p0 = "[path_7z, ''a'', ''-mx9'']"
  have n1: "''--'' \<notin> set ?f1" by (rule flag_list_no_dashes_str)
  have n2: "''--'' \<notin> set ?f2" by (rule flag_list_no_dashes_int)
  have n3: "''--'' \<notin> set ?f3" by (rule flag_list_no_dashes_str)
  have p0: "''--'' \<notin> set ?p0" using assms by simp
  have s1: "insert_flag (flag_str ''-md'' d) [path_7z, ''a'', ''-mx9'', ''--''] = Inr (?p0 @ ?f1 @ [''--''])"
    using insert_flag_before_dashes[OF p0, of "flag_str ''-md'' d"] by simp
  have p1: "''--'' \<notin> set (?p0 @ ?f1)" using p0 n1 by simp
  have s2: "insert_flag (flag_int ''-mfb'' ws) (?p0 @ ?f1 @ [''--'']) = Inr (?p0 @ ?f1 @ ?f2 @ [''--''])"
    using insert_flag_before_dashes[OF p1, of "flag_int ''-mfb'' ws"] by simp
  have p2: "''--'' \<notin> set (?p0 @ ?f1 @ ?f2)" using p1 n2 by simp
  have s3: "insert_flag (flag_str ''-ms'' b) (?p0 @ ?f1 @ ?f2 @ [''--'']) = Inr (?p0 @ ?f1 @ ?f2 @ ?f3 @ [''--''])"
    using insert_flag_before_dashes[OF p2, of "flag_str ''-ms'' b"] by simp
  have p3: "''--'' \<notin> set (?p0 @ ?f1 @ ?f2 @ ?f3)" using p2 n3 by simp
  have s4: "insert_flag (flag_int ''-mmt'' t) (?p0 @ ?f1 @ ?f2 @ ?f3 @ [''--'']) = Inr (?p0 @ ?f1 @ ?f2 @ ?f3 @ ?f4 @ [''--''])"
    using insert_flag_before_dashes[OF p3, of "flag_int ''-mmt'' t"] by simp
  show ?thesis unfolding runCMD_def s1 sum.case s2 s3 s4 by simp
qed

text \<open>
  Claim C7. For every combination of the four parameters, \<open>runCMD\<close> starts one
  compressor process for each directory of the listing, in the order of the listing, and
  the argument vector of each is the binary, \<^verbatim>\<open>a\<close>, \<^verbatim>\<open>-mx9\<close>, the flags of the
  parameters that are neither absent, empty nor zero in the order \<^verbatim>\<open>-md -mfb -ms -mmt\<close>,
  \<^verbatim>\<open>--\<close>, the archive name and the directory name. The loop hands the command
  back as it received it: the two trailing arguments are removed after every run. The
  path of the binary is the result of \<^verbatim>\<open>shutil.which('7z')\<close>, which is not
  \<^verbatim>\<open>--\<close>.
\<close>

theorem runCMD_commands:
  assumes "path_7z \<noteq> ''--''"
  shows "(\<exists>w'. runCMD proc path_7z dict_size word_size block_size threads w = Inr w'
            \<and> calls w' = calls w
                @ map (spec_command path_7z dict_size word_size block_size threads)
                    (directories (entries w)))
         \<and> fst (runCMD_loop proc dirs cmd w2) = cmd"
proof -
  let ?cmd = "[path_7z, ''a'', ''-mx9'']
          @ (case flag_str ''-md'' dict_size of None \<Rightarrow> [] | Some f \<Rightarrow> [f])
          @ (case flag_int ''-mfb'' word_size of None \<Rightarrow> [] | Some f \<Rightarrow> [f])
          @ (case flag_str ''-ms'' block_size of None \<Rightarrow> [] | Some f \<Rightarrow> [f])
          @ (case flag_int ''-mmt'' threads of None \<Rightarrow> [] | Some f \<Rightarrow> [f])
          @ [''--'']"
  let ?w' = "snd (runCMD_loop proc (directories (entries w)) ?cmd w)"
  have r: "runCMD proc path_7z dict_size word_size block_size threads w = Inr ?w'"
    using assms by (rule runCMD_Inr)
  have c: "calls ?w' = calls w @ map (\<lambda>name. ?cmd @ [name @ ''.7z'', name]) (directories (entries w))"
    using runCMD_loop_calls[of proc "directories (entries w)" ?cmd w] by blast
  have e: "(\<lambda>name. ?cmd @ [name @ ''.7z'', name])
             = spec_command path_7z dict_size word_size block_size threads"
    by (rule ext) (simp add: spec_command_def flag_str_spec flag_int_spec)
  have l: "fst (runCMD_loop proc dirs cmd w2) = cmd"
    using runCMD_loop_calls[of proc dirs cmd w2] by (metis fst_conv)
  from r c e l show ?thesis by simp
qed

theorem runCMD_commands_witness:
  "''/usr/bin/7z'' \<noteq> ''--''
   \<and> (\<exists>w'. runCMD (\<lambda>cmd es. (0, es)) ''/usr/bin/7z'' (Some ''1m'') (Some 8) (Some []) None
              \<lparr>entries = [(''A'', Directory), (''venv'', Directory), (''.git'', Directory),
                          (''notes.txt'', RegularFile 3), (''B'', Directory)],
                calls = []\<rparr> = Inr w'
         \<and> calls w' = [[''/usr/bin/7z'', ''a'', ''-mx9'', ''-md1m'', ''-mfb8'', ''--'', ''A.7z'', ''A''],
                       [''/usr/bin/7z'', ''a'', ''-mx9'', ''-md1m'', ''-mfb8'', ''--'', ''B.7z'', ''B'']])"
proof -
  have s: "str_int 8 = ''8''" by code_simp
  have h: "''/usr/bin/7z'' \<noteq> ''--''" by simp
  show ?thesis
    using runCMD_commands[OF h, THEN conjunct1, of "\<lambda>cmd es. (0, es)" "Some ''1m''" "Some 8" "Some []" None
      "\<lparr>entries = [(''A'', Directory), (''venv'', Directory), (''.git'', Directory),
                          (''notes.txt'', RegularFile 3), (''B'', Directory)],
                calls = []\<rparr>"]
    by (simp add: spec_command_def directories_def startswith_def s)
qed

section \<open>runCMD always returns\<close>

lemma insert_flag_keeps:
  assumes "''--'' \<in> set cmd"
  shows "\<exists>cmd'. insert_flag flag cmd = Inr cmd' \<and> ''--'' \<in> set cmd'"
proof (cases flag)
  case None
  with assms show ?thesis by (simp add: insert_flag_def)
next
  case (Some f)
  let ?i = "length (takeWhile (\<lambda>y. y \<noteq> ''--'') cmd)"
  have "set (take ?i cmd) \<union> set (drop ?i cmd) = set cmd"
    by (metis append_take_drop_id set_append)
  with assms have "''--'' \<in> set (py_insert cmd ?i f)"
    by (auto simp: py_insert_def)
  with assms Some show ?thesis by (simp add: insert_flag_def py_index_def)
qed

lemma runCMD_total: "\<exists>w1. runCMD proc path_7z d ws b t w = Inr w1"
proof -
  have "''--'' \<in> set [path_7z, ''a'', ''-mx9'', ''--'']" by simp
  from insert_flag_keeps[OF this] obtain c1 where
    1: "insert_flag (flag_str ''-md'' d) [path_7z, ''a'', ''-mx9'', ''--''] = Inr c1" "''--'' \<in> set c1"
    by blast
  from insert_flag_keeps[OF 1(2)] obtain c2 where
    2: "insert_flag (flag_int ''-mfb'' ws) c1 = Inr c2" "''--'' \<in> set c2" by blast
  from insert_flag_keeps[OF 2(2)] obtain c3 where
    3: "insert_flag (flag_str ''-ms'' b) c2 = Inr c3" "''--'' \<in> set c3" by blast
  from insert_flag_keeps[OF 3(2)] obtain c4 where
    4: "insert_flag (flag_int ''-mmt'' t) c3 = Inr c4" by blast
  show ?thesis unfolding runCMD_def by (simp add: 1 2 3 4)
qed

lemma dict_keys_dict_set:
  "dict_keys (dict_set d k v) = (if k \<in> set (dict_keys d) then dict_keys d else dict_keys d @ [k])"
  by (induction d) (force simp: dict_keys_def)+

section \<open>The thread sweep\<close>







section \<open>The exit status of the compressor\<close>

lemma subprocess_run_status:
  "snd (subprocess_run (exits_zero proc) cmd w) = snd (subprocess_run proc cmd w)"
  by (simp add: subprocess_run_def exits_zero_def split_beta)

lemma runCMD_loop_unfold:
  "runCMD_loop proc (name # dirs) cmd w =
     runCMD_loop proc dirs cmd (snd (subprocess_run proc (cmd @ [name @ ''.7z'', name]) w))"
  by (simp add: split_beta)

lemma runCMD_loop_status:
  "runCMD_loop (exits_zero proc) dirs cmd w = runCMD_loop proc dirs cmd w"
proof (induction dirs arbitrary: w)
  case Nil
  show ?case by simp
next
  case (Cons name dirs)
  show ?case unfolding runCMD_loop_unfold subprocess_run_status by (rule Cons.IH)
qed

lemma runCMD_status:
  "runCMD (exits_zero proc) path_7z d ws b t w = runCMD proc path_7z d ws b t w"
  by (simp add: runCMD_def runCMD_loop_status split: sum.splits)

lemma testAllDictSizes_loop_status:
  "testAllDictSizes_loop (exits_zero proc) path_7z bound cs info w
     = testAllDictSizes_loop proc path_7z bound cs info w"
  by (induction cs arbitrary: info w) (simp_all add: runCMD_status split: sum.splits bool.splits)

lemma testAllWordSizes_loop_status:
  "testAllWordSizes_loop (exits_zero proc) path_7z d cs info w
     = testAllWordSizes_loop proc path_7z d cs info w"
  by (induction cs arbitrary: info w) (simp_all add: runCMD_status split: sum.splits bool.splits)

lemma testAllBlockSizes_loop_status:
  "testAllBlockSizes_loop (exits_zero proc) path_7z d ws bound cs info w
     = testAllBlockSizes_loop proc path_7z d ws bound cs info w"
  by (induction cs arbitrary: info w) (simp_all add: runCMD_status split: sum.splits bool.splits)

lemma testNThreads_loop_status:
  "testNThreads_loop (exits_zero proc) path_7z d ws b cs info w
     = testNThreads_loop proc path_7z d ws b cs info w"
  by (induction cs arbitrary: info w) (simp_all add: runCMD_status split: sum.splits bool.splits)

lemma foldl_archive_sum:
  "foldl (\<lambda>total_size (name, n).
            if is_file n \<and> endswith name ''.7z'' then total_size + st_size n else total_size)
     acc es
   = acc + sum_list (map (\<lambda>(name, n). st_size n)
             (filter (\<lambda>(name, n). is_file n \<and> endswith name ''.7z'') es))"
  by (induction es arbitrary: acc) (auto simp: split_beta)

lemma getTotalSizeOfArchives_bytes: "getTotalSizeOfArchives w = archive_bytes w"
  by (simp add: getTotalSizeOfArchives_def archive_bytes_def foldl_archive_sum)

lemma map_of_dict_set: "map_of (dict_set d k v) = (map_of d)(k \<mapsto> v)"
  by (induction d) (auto simp: fun_eq_iff)

lemma testAllWordSizes_loop_keys:
  assumes "distinct cs" and "set cs \<inter> set (dict_keys info) = {}"
  shows "\<exists>info' w'. testAllWordSizes_loop proc path_7z d cs info w = Inr (info', w')
           \<and> dict_keys info' = dict_keys info @ cs
           \<and> (\<forall>k. k \<notin> set cs \<longrightarrow> map_of info' k = map_of info k)"
  using assms
proof (induction cs arbitrary: info w)
  case Nil
  show ?case by simp
next
  case (Cons sz rest)
  obtain w1 where r: "runCMD proc path_7z d (Some sz) None None w = Inr w1"
    using runCMD_total by blast
  let ?info = "dict_set info sz (getTotalSizeOfArchives w1)"
  have k: "dict_keys ?info = dict_keys info @ [sz]"
    using Cons.prems by (simp add: dict_keys_dict_set)
  have "distinct rest" and "set rest \<inter> set (dict_keys ?info) = {}"
    using Cons.prems k by auto
  from Cons.IH[OF this, of "removeArchives w1"] obtain info' w' where
    l: "testAllWordSizes_loop proc path_7z d rest ?info (removeArchives w1) = Inr (info', w')"
    and k': "dict_keys info' = dict_keys ?info @ rest"
    and m: "\<forall>k. k \<notin> set rest \<longrightarrow> map_of info' k = map_of ?info k" by blast
  have "\<forall>k. k \<notin> set (sz # rest) \<longrightarrow> map_of info' k = map_of info k"
    using m by (simp add: map_of_dict_set)
  with r k l k' show ?case by simp
qed


lemma distinct_values_wordsize: "distinct values_wordsize"
  by (simp add: values_wordsize_def)

lemma word_sweep_first_entry:
  "\<exists>info w' w1. testAllWordSizes proc path_7z d w = Inr (info, w')
      \<and> dict_keys info = values_wordsize
      \<and> runCMD proc path_7z d (Some 8) None None w = Inr w1
      \<and> map_of info 8 = Some (archive_bytes w1)"
proof -
  let ?rest = "[12, 16, 24, 32, 48, 64, 96, 128, 192, 256, 273 :: int]"
  obtain w1 where r: "runCMD proc path_7z d (Some 8) None None w = Inr w1"
    using runCMD_total by blast
  let ?info = "dict_set ([] :: (int, int) dict) 8 (getTotalSizeOfArchives w1)"
  have dr: "distinct ?rest" by simp
  have dj: "set ?rest \<inter> set (dict_keys ?info) = {}" by (simp add: dict_keys_def)
  from testAllWordSizes_loop_keys[OF dr dj, of proc path_7z d "removeArchives w1"]
  obtain info' w' where
    l: "testAllWordSizes_loop proc path_7z d ?rest ?info (removeArchives w1) = Inr (info', w')"
    and k: "dict_keys info' = dict_keys ?info @ ?rest"
    and m: "\<forall>k. k \<notin> set ?rest \<longrightarrow> map_of info' k = map_of ?info k" by blast
  have t: "testAllWordSizes proc path_7z d w = Inr (info', w')"
    using r l by (simp add: testAllWordSizes_def values_wordsize_def)
  have k': "dict_keys info' = values_wordsize"
    using k by (simp add: dict_keys_def values_wordsize_def)
  have "map_of info' 8 = map_of ?info 8" using m by simp
  then have v: "map_of info' 8 = Some (archive_bytes w1)"
    by (simp add: getTotalSizeOfArchives_bytes)
  from t k' r v show ?thesis by blast
qed

text \<open>
  Claim C4, as the code has it. The exit status of a compressor process is dropped:
  \<open>runCMD\<close> never raises, and \<open>runCMD\<close> and the four sweeps return what they return with
  the compressor that leaves the same files behind and always exits with status 0. A run
  that failed does not end the sweep: the word-size sweep returns a table with all its
  candidates, whatever the compressor does. The entry recorded for a candidate is the total
  size of the regular files ending in \<^verbatim>\<open>.7z\<close> that are in the working directory after
  its run: so for the first candidate in the table of the word-size sweep, and so in every
  iteration of the four loops that does not break.
\<close>

theorem exit_status_dropped:
  "(\<exists>w1. runCMD proc path_7z dict_size word_size block_size threads w = Inr w1)
   \<and> runCMD proc path_7z dict_size word_size block_size threads w
       = runCMD (exits_zero proc) path_7z dict_size word_size block_size threads w
   \<and> testAllDictSizes proc du path_7z w = testAllDictSizes (exits_zero proc) du path_7z w
   \<and> testAllWordSizes proc path_7z dict_size w = testAllWordSizes (exits_zero proc) path_7z dict_size w
   \<and> testAllBlockSizes proc du path_7z dict_size word_size w
       = testAllBlockSizes (exits_zero proc) du path_7z dict_size word_size w
   \<and> testNThreads proc cpu_count path_7z dict_size word_size block_size w
       = testNThreads (exits_zero proc) cpu_count path_7z dict_size word_size block_size w
   \<and> (\<exists>info w' w1. testAllWordSizes proc path_7z dict_size w = Inr (info, w')
          \<and> dict_keys info = values_wordsize
          \<and> runCMD proc path_7z dict_size (Some 8) None None w = Inr w1
          \<and> map_of info 8 = Some (archive_bytes w1))
   \<and> (testAllDictSizes_break dsz largestDictSize = Inr False \<longrightarrow>
        (\<exists>w1. runCMD proc path_7z (Some dsz) None None None w = Inr w1
           \<and> testAllDictSizes_loop proc path_7z largestDictSize (dsz # drest) dinfo w
               = testAllDictSizes_loop proc path_7z largestDictSize drest
                   (dict_set dinfo dsz (archive_bytes w1)) (removeArchives w1)))
   \<and> (\<exists>w1. runCMD proc path_7z dict_size (Some wsz) None None w = Inr w1
           \<and> testAllWordSizes_loop proc path_7z dict_size (wsz # wrest) winfo w
               = testAllWordSizes_loop proc path_7z dict_size wrest
                   (dict_set winfo wsz (archive_bytes w1)) (removeArchives w1))
   \<and> (testAllBlockSizes_break bsz largestBlockSize = Inr False \<longrightarrow>
        (\<exists>w1. runCMD proc path_7z dict_size word_size (Some bsz) None w = Inr w1
           \<and> testAllBlockSizes_loop proc path_7z dict_size word_size largestBlockSize (bsz # brest) binfo w
               = testAllBlockSizes_loop proc path_7z dict_size word_size largestBlockSize brest
                   (dict_set binfo bsz (archive_bytes w1)) (removeArchives w1)))
   \<and> (\<exists>w1. runCMD proc path_7z dict_size word_size block_size (Some i) w = Inr w1
           \<and> testNThreads_loop proc path_7z dict_size word_size block_size (i # trest) tinfo w
               = testNThreads_loop proc path_7z dict_size word_size block_size trest
                   (dict_set tinfo i (archive_bytes w1)) (removeArchives w1))"
proof -
  have 1: "\<exists>w1. runCMD proc path_7z dict_size word_size block_size threads w = Inr w1"
    by (rule runCMD_total)
  have 2: "runCMD proc path_7z dict_size word_size block_size threads w
       = runCMD (exits_zero proc) path_7z dict_size word_size block_size threads w"
    by (simp add: runCMD_status)
  have 3: "testAllDictSizes proc du path_7z w = testAllDictSizes (exits_zero proc) du path_7z w"
    by (simp add: testAllDictSizes_def testAllDictSizes_loop_status split: sum.splits option.splits)
  have 4: "testAllWordSizes proc path_7z dict_size w
             = testAllWordSizes (exits_zero proc) path_7z dict_size w"
    by (simp add: testAllWordSizes_def testAllWordSizes_loop_status split: sum.splits option.splits)
  have 5: "testAllBlockSizes proc du path_7z dict_size word_size w
             = testAllBlockSizes (exits_zero proc) du path_7z dict_size word_size w"
    by (simp add: testAllBlockSizes_def testAllBlockSizes_loop_status split: sum.splits option.splits)
  have 6: "testNThreads proc cpu_count path_7z dict_size word_size block_size w
             = testNThreads (exits_zero proc) cpu_count path_7z dict_size word_size block_size w"
    by (simp add: testNThreads_def testNThreads_loop_status split: sum.splits option.splits)
  have 7: "\<exists>info w' w1. testAllWordSizes proc path_7z dict_size w = Inr (info, w')
          \<and> dict_keys info = values_wordsize
          \<and> runCMD proc path_7z dict_size (Some 8) None None w = Inr w1
          \<and> map_of info 8 = Some (archive_bytes w1)"
    by (rule word_sweep_first_entry)
  have 8: "\<exists>w1. runCMD proc path_7z (Some dsz) None None None w = Inr w1
           \<and> testAllDictSizes_loop proc path_7z largestDictSize (dsz # drest) dinfo w
               = testAllDictSizes_loop proc path_7z largestDictSize drest
                   (dict_set dinfo dsz (archive_bytes w1)) (removeArchives w1)"
    if "testAllDictSizes_break dsz largestDictSize = Inr False"
  proof -
    obtain w1 where "runCMD proc path_7z (Some dsz) None None None w = Inr w1"
      using runCMD_total by blast
    with that show ?thesis by (simp add: getTotalSizeOfArchives_bytes)
  qed
  have 9: "\<exists>w1. runCMD proc path_7z dict_size (Some wsz) None None w = Inr w1
           \<and> testAllWordSizes_loop proc path_7z dict_size (wsz # wrest) winfo w
               = testAllWordSizes_loop proc path_7z dict_size wrest
                   (dict_set winfo wsz (archive_bytes w1)) (removeArchives w1)"
  proof -
    obtain w1 where "runCMD proc path_7z dict_size (Some wsz) None None w = Inr w1"
      using runCMD_total by blast
    then show ?thesis by (simp add: getTotalSizeOfArchives_bytes)
  qed
  have 10: "\<exists>w1. runCMD proc path_7z dict_size word_size (Some bsz) None w = Inr w1
           \<and> testAllBlockSizes_loop proc path_7z dict_size word_size largestBlockSize (bsz # brest) binfo w
               = testAllBlockSizes_loop proc path_7z dict_size word_size largestBlockSize brest
                   (dict_set binfo bsz (archive_bytes w1)) (removeArchives w1)"
    if "testAllBlockSizes_break bsz largestBlockSize = Inr False"
  proof -
    obtain w1 where "runCMD proc path_7z dict_size word_size (Some bsz) None w = Inr w1"
      using runCMD_total by blast
    with that show ?thesis by (simp add: getTotalSizeOfArchives_bytes)
  qed
  have 11: "\<exists>w1. runCMD proc path_7z dict_size word_size block_size (Some i) w = Inr w1
           \<and> testNThreads_loop proc path_7z dict_size word_size block_size (i # trest) tinfo w
               = testNThreads_loop proc path_7z dict_size word_size block_size trest
                   (dict_set tinfo i (archive_bytes w1)) (removeArchives w1)"
  proof -
    obtain w1 where "runCMD proc path_7z dict_size word_size block_size (Some i) w = Inr w1"
      using runCMD_total by blast
    then show ?thesis by (simp add: getTotalSizeOfArchives_bytes)
  qed
  from 1 2 3 4 5 6 7 8 9 10 11 show ?thesis by blast
qed

theorem exit_status_dropped_witness:
  "testAllDictSizes_break ''1m'' (Some 12) = Inr False
   \<and> testAllBlockSizes_break ''=on'' (Some 12) = Inr False
   \<and> fst (warning_7z [''/usr/bin/7z'', ''a'', ''-mx9'', ''-md1m'', ''--'', ''A.7z'', ''A'']
            (entries sample_world)) = 1
   \<and> (\<exists>w1. runCMD warning_7z ''/usr/bin/7z'' (Some ''1m'') None None None sample_world = Inr w1
          \<and> archive_bytes w1 = 14
          \<and> testAllDictSizes_loop warning_7z ''/usr/bin/7z'' (Some 12) [''1m''] [] sample_world
              = Inr ([(''1m'', 14)], removeArchives w1))
   \<and> (\<exists>w1. runCMD warning_7z ''/usr/bin/7z'' (Some ''1m'') (Some 8) (Some ''=on'') None sample_world
              = Inr w1
          \<and> archive_bytes w1 = 14
          \<and> testAllBlockSizes_loop warning_7z ''/usr/bin/7z'' (Some ''1m'') (Some 8) (Some 12)
                [''=on''] [] sample_world
              = Inr ([(''=on'', 14)], removeArchives w1))"
proof -
  have hd: "testAllDictSizes_break ''1m'' (Some 12) = Inr False" by code_simp
  have hb: "testAllBlockSizes_break ''=on'' (Some 12) = Inr False" by code_simp
  have st: "fst (warning_7z [''/usr/bin/7z'', ''a'', ''-mx9'', ''-md1m'', ''--'', ''A.7z'', ''A'']
            (entries sample_world)) = 1" by code_simp
  have ed: "map_sum id archive_bytes
              (runCMD warning_7z ''/usr/bin/7z'' (Some ''1m'') None None None sample_world) = Inr 14"
    by code_simp
  have eb: "map_sum id archive_bytes
              (runCMD warning_7z ''/usr/bin/7z'' (Some ''1m'') (Some 8) (Some ''=on'') None sample_world)
              = Inr 14"
    by code_simp
  note inst = exit_status_dropped[where w = sample_world and dsz = "''1m''"
      and largestDictSize = "Some 12" and proc = warning_7z and ?path_7z = "''/usr/bin/7z''"
      and drest = "[]" and dinfo = "[]" and dict_size = "Some ''1m''" and bsz = "''=on''"
      and largestBlockSize = "Some 12" and word_size = "Some 8" and brest = "[]"
      and binfo = "[]"]
  from inst hd obtain w1 where
    d: "runCMD warning_7z ''/usr/bin/7z'' (Some ''1m'') None None None sample_world = Inr w1"
       "testAllDictSizes_loop warning_7z ''/usr/bin/7z'' (Some 12) [''1m''] [] sample_world
              = testAllDictSizes_loop warning_7z ''/usr/bin/7z'' (Some 12) []
                  (dict_set [] ''1m'' (archive_bytes w1)) (removeArchives w1)" by blast
  from inst hb obtain w2 where
    b: "runCMD warning_7z ''/usr/bin/7z'' (Some ''1m'') (Some 8) (Some ''=on'') None sample_world = Inr w2"
       "testAllBlockSizes_loop warning_7z ''/usr/bin/7z'' (Some ''1m'') (Some 8) (Some 12)
                [''=on''] [] sample_world
              = testAllBlockSizes_loop warning_7z ''/usr/bin/7z'' (Some ''1m'') (Some 8) (Some 12) []
                  (dict_set [] ''=on'' (archive_bytes w2)) (removeArchives w2)" by blast
  from ed d(1) have ad: "archive_bytes w1 = 14" by simp
  from eb b(1) have ab: "archive_bytes w2 = 14" by simp
  have ld: "testAllDictSizes_loop warning_7z ''/usr/bin/7z'' (Some 12) [''1m''] [] sample_world
              = Inr ([(''1m'', 14)], removeArchives w1)"
    unfolding d(2) ad by simp
  have lb: "testAllBlockSizes_loop warning_7z ''/usr/bin/7z'' (Some ''1m'') (Some 8) (Some 12)
                [''=on''] [] sample_world = Inr ([(''=on'', 14)], removeArchives w2)"
    unfolding b(2) ab by simp
  from hd hb st d(1) ad ld b(1) ab lb show ?thesis by blast
qed

text \<open>
  Claim C4 as stated fails: with a compressor that exits with status 2 and writes nothing,
  the word-size sweep runs to its end and records the size 0 for every candidate.
\<close>

theorem failed_runs_recorded_as_zero:
  "fst (failing_7z [''/usr/bin/7z'', ''a'', ''-mx9'', ''-md1m'', ''-mfb8'', ''--'', ''A.7z'', ''A'']
         (entries sample_world)) = 2
   \<and> map_sum id fst (testAllWordSizes failing_7z ''/usr/bin/7z'' (Some ''1m'') sample_world)
     = Inr [(8, 0), (12, 0), (16, 0), (24, 0), (32, 0), (48, 0), (64, 0), (96, 0), (128, 0),
            (192, 0), (256, 0), (273, 0)]"
  by code_simp

section \<open>Archives between two candidates\<close>

lemma archives_removeArchives: "archives (removeArchives w) = []"
  by (auto simp: archives_def removeArchives_def filter_empty_conv)

lemma removeArchives_idem: "removeArchives (removeArchives w) = removeArchives w"
  by (simp add: removeArchives_def)

lemma main_after_removal:
  "main proc du cpu_count path_7z (removeArchives w) = main proc du cpu_count path_7z w"
  by (simp add: main_def removeArchives_idem)

lemma testAllDictSizes_loop_clean:
  "archives w = [] \<Longrightarrow> testAllDictSizes_loop proc path_7z bound cs info w = Inr (info', w')
     \<Longrightarrow> archives w' = []"
proof (induction cs arbitrary: info w)
  case Nil
  then show ?case by simp
next
  case (Cons sz rest)
  show ?case
  proof (cases "testAllDictSizes_break sz bound")
    case (Inl e)
    with Cons.prems(2) show ?thesis by simp
  next
    case (Inr brk)
    show ?thesis
    proof (cases brk)
      case True
      with Inr Cons.prems show ?thesis by simp
    next
      case False
      obtain w1 where r: "runCMD proc path_7z (Some sz) None None None w = Inr w1"
        using runCMD_total by blast
      from Cons.prems(2) Inr False r have
        "testAllDictSizes_loop proc path_7z bound rest
           (dict_set info sz (getTotalSizeOfArchives w1)) (removeArchives w1) = Inr (info', w')"
        by simp
      with archives_removeArchives[of w1] show ?thesis by (rule Cons.IH)
    qed
  qed
qed

lemma testAllWordSizes_loop_clean:
  "archives w = [] \<Longrightarrow> testAllWordSizes_loop proc path_7z d cs info w = Inr (info', w')
     \<Longrightarrow> archives w' = []"
proof (induction cs arbitrary: info w)
  case Nil
  then show ?case by simp
next
  case (Cons sz rest)
  obtain w1 where r: "runCMD proc path_7z d (Some sz) None None w = Inr w1"
    using runCMD_total by blast
  from Cons.prems(2) r have
    "testAllWordSizes_loop proc path_7z d rest
       (dict_set info sz (getTotalSizeOfArchives w1)) (removeArchives w1) = Inr (info', w')"
    by simp
  with archives_removeArchives[of w1] show ?case by (rule Cons.IH)
qed

lemma testAllBlockSizes_loop_clean:
  "archives w = [] \<Longrightarrow>
   testAllBlockSizes_loop proc path_7z d ws bound cs info w = Inr (info', w')
     \<Longrightarrow> archives w' = []"
proof (induction cs arbitrary: info w)
  case Nil
  then show ?case by simp
next
  case (Cons sz rest)
  show ?case
  proof (cases "testAllBlockSizes_break sz bound")
    case (Inl e)
    with Cons.prems(2) show ?thesis by simp
  next
    case (Inr brk)
    show ?thesis
    proof (cases brk)
      case True
      with Inr Cons.prems show ?thesis by simp
    next
      case False
      obtain w1 where r: "runCMD proc path_7z d ws (Some sz) None w = Inr w1"
        using runCMD_total by blast
      from Cons.prems(2) Inr False r have
        "testAllBlockSizes_loop proc path_7z d ws bound rest
           (dict_set info sz (getTotalSizeOfArchives w1)) (removeArchives w1) = Inr (info', w')"
        by simp
      with archives_removeArchives[of w1] show ?thesis by (rule Cons.IH)
    qed
  qed
qed

lemma testNThreads_loop_clean:
  "archives w = [] \<Longrightarrow>
   testNThreads_loop proc path_7z d ws b cs info w = Inr (info', w')
     \<Longrightarrow> archives w' = []"
proof (induction cs arbitrary: info w)
  case Nil
  then show ?case by simp
next
  case (Cons i rest)
  obtain w1 where r: "runCMD proc path_7z d ws b (Some i) w = Inr w1"
    using runCMD_total by blast
  from Cons.prems(2) r have
    "testNThreads_loop proc path_7z d ws b rest
       (dict_set info i (getTotalSizeOfArchives w1)) (removeArchives w1) = Inr (info', w')"
    by simp
  with archives_removeArchives[of w1] show ?case by (rule Cons.IH)
qed

lemma testAllDictSizes_clean:
  "archives w = [] \<Longrightarrow> testAllDictSizes proc du path_7z w = Inr (info, w') \<Longrightarrow> archives w' = []"
  by (auto simp: testAllDictSizes_def split: sum.splits dest: testAllDictSizes_loop_clean)

lemma testAllWordSizes_clean:
  "archives w = [] \<Longrightarrow> testAllWordSizes proc path_7z d w = Inr (info, w') \<Longrightarrow> archives w' = []"
  by (auto simp: testAllWordSizes_def dest: testAllWordSizes_loop_clean)

lemma testAllBlockSizes_clean:
  "archives w = [] \<Longrightarrow> testAllBlockSizes proc du path_7z d ws w = Inr (info, w')
     \<Longrightarrow> archives w' = []"
  by (auto simp: testAllBlockSizes_def split: sum.splits dest: testAllBlockSizes_loop_clean)

lemma testNThreads_clean:
  "archives w = [] \<Longrightarrow> testNThreads proc cpu_count path_7z d ws b w = Inr (info, w')
     \<Longrightarrow> archives w' = []"
  by (auto simp: testNThreads_def split: option.splits dest: testNThreads_loop_clean)

lemma main_first_sweep_error:
  "testAllDictSizes proc du path_7z (removeArchives w) = Inl e
     \<Longrightarrow> main proc du cpu_count path_7z w = Inl e"
  by (simp add: main_def)

lemma main_trace:
  assumes "main proc du cpu_count path_7z w = Inr ((db, wb, bb, tb), w')"
  shows "\<exists>dinfo w1 winfo w2 binfo w3 tinfo w4.
           testAllDictSizes proc du path_7z (removeArchives w) = Inr (dinfo, w1)
         \<and> smallestSize dinfo = Inr db \<and> archives w1 = []
         \<and> testAllWordSizes proc path_7z (Some (fst db)) w1 = Inr (winfo, w2)
         \<and> smallestSize winfo = Inr wb \<and> archives w2 = []
         \<and> testAllBlockSizes proc du path_7z (Some (fst db)) (Some (fst wb)) w2 = Inr (binfo, w3)
         \<and> smallestSize binfo = Inr bb \<and> archives w3 = []
         \<and> testNThreads proc cpu_count path_7z (Some (fst db)) (Some (fst wb)) (Some (fst bb)) w3
              = Inr (tinfo, w4)
         \<and> smallestSize tinfo = Inr tb \<and> archives w4 = []
         \<and> runCMD proc path_7z (Some (fst db)) (Some (fst wb)) (Some (fst bb)) (Some (fst tb)) w4
              = Inr w'"
proof -
  from assms obtain dinfo w1 where
    1: "testAllDictSizes proc du path_7z (removeArchives w) = Inr (dinfo, w1)"
    by (cases "testAllDictSizes proc du path_7z (removeArchives w)") (auto simp: main_def)
  from assms 1 obtain db' where 2: "smallestSize dinfo = Inr db'"
    by (cases "smallestSize dinfo") (auto simp: main_def)
  from assms 1 2 obtain winfo w2 where
    3: "testAllWordSizes proc path_7z (Some (fst db')) w1 = Inr (winfo, w2)"
    by (cases "testAllWordSizes proc path_7z (Some (fst db')) w1") (auto simp: main_def)
  from assms 1 2 3 obtain wb' where 4: "smallestSize winfo = Inr wb'"
    by (cases "smallestSize winfo") (auto simp: main_def)
  from assms 1 2 3 4 obtain binfo w3 where
    5: "testAllBlockSizes proc du path_7z (Some (fst db')) (Some (fst wb')) w2 = Inr (binfo, w3)"
    by (cases "testAllBlockSizes proc du path_7z (Some (fst db')) (Some (fst wb')) w2")
       (auto simp: main_def)
  from assms 1 2 3 4 5 obtain bb' where 6: "smallestSize binfo = Inr bb'"
    by (cases "smallestSize binfo") (auto simp: main_def)
  from assms 1 2 3 4 5 6 obtain tinfo w4 where
    7: "testNThreads proc cpu_count path_7z (Some (fst db')) (Some (fst wb')) (Some (fst bb')) w3
          = Inr (tinfo, w4)"
    by (cases "testNThreads proc cpu_count path_7z (Some (fst db')) (Some (fst wb'))
                 (Some (fst bb')) w3") (auto simp: main_def)
  from assms 1 2 3 4 5 6 7 obtain tb' where 8: "smallestSize tinfo = Inr tb'"
    by (cases "smallestSize tinfo") (auto simp: main_def)
  from assms 1 2 3 4 5 6 7 8 have
    9: "runCMD proc path_7z (Some (fst db')) (Some (fst wb')) (Some (fst bb')) (Some (fst tb')) w4
          = Inr w'" and eq: "db' = db" "wb' = wb" "bb' = bb" "tb' = tb"
    by (auto simp: main_def split: sum.splits)
  have c1: "archives w1 = []"
    using archives_removeArchives 1 by (rule testAllDictSizes_clean)
  have c2: "archives w2 = []" using c1 3 by (rule testAllWordSizes_clean)
  have c3: "archives w3 = []" using c2 5 by (rule testAllBlockSizes_clean)
  have c4: "archives w4 = []" using c3 7 by (rule testNThreads_clean)
  from 1 2 3 4 5 6 7 8 9 c1 c2 c3 c4 show ?thesis unfolding eq by blast
qed

lemma stage_result:
  "map_sum id (f \<circ> fst) x = Inr v \<Longrightarrow> \<exists>info. x = Inr (info, snd (projr x)) \<and> f info = v"
  by (cases x) auto

lemma main_stale_sample:
  "\<exists>w'. main sample_7z (sample_du ''50'') (Some 2) ''/usr/bin/7z'' stale_world
          = Inr (((''64k'', 14), (8, 14), (''=off'', 14), (2, 14)), w')"
proof -
  define W1 where "W1 = snd (projr (testAllDictSizes sample_7z (sample_du ''50'') ''/usr/bin/7z''
                                     (removeArchives stale_world)))"
  define W2 where "W2 = snd (projr (testAllWordSizes sample_7z ''/usr/bin/7z'' (Some ''64k'') W1))"
  define W3 where "W3 = snd (projr (testAllBlockSizes sample_7z (sample_du ''50'') ''/usr/bin/7z''
                                     (Some ''64k'') (Some 8) W2))"
  define W4 where "W4 = snd (projr (testNThreads sample_7z (Some 2) ''/usr/bin/7z'' (Some ''64k'')
                                     (Some 8) (Some ''=off'') W3))"
  have "map_sum id (smallestSize \<circ> fst)
          (testAllDictSizes sample_7z (sample_du ''50'') ''/usr/bin/7z'' (removeArchives stale_world))
        = Inr (Inr (''64k'', 14))"
    by code_simp
  from stage_result[OF this] obtain dinfo where
    1: "testAllDictSizes sample_7z (sample_du ''50'') ''/usr/bin/7z'' (removeArchives stale_world)
          = Inr (dinfo, W1)" "smallestSize dinfo = Inr (''64k'', 14)"
    unfolding W1_def by blast
  have "map_sum id (smallestSize \<circ> fst)
          (testAllWordSizes sample_7z ''/usr/bin/7z'' (Some ''64k'') W1) = Inr (Inr (8, 14))"
    unfolding W1_def by code_simp
  from stage_result[OF this] obtain winfo where
    2: "testAllWordSizes sample_7z ''/usr/bin/7z'' (Some ''64k'') W1 = Inr (winfo, W2)"
       "smallestSize winfo = Inr (8, 14)"
    unfolding W2_def by blast
  have "map_sum id (smallestSize \<circ> fst)
          (testAllBlockSizes sample_7z (sample_du ''50'') ''/usr/bin/7z'' (Some ''64k'') (Some 8) W2)
        = Inr (Inr (''=off'', 14))"
    unfolding W2_def W1_def by code_simp
  from stage_result[OF this] obtain binfo where
    3: "testAllBlockSizes sample_7z (sample_du ''50'') ''/usr/bin/7z'' (Some ''64k'') (Some 8) W2
          = Inr (binfo, W3)" "smallestSize binfo = Inr (''=off'', 14)"
    unfolding W3_def by blast
  have "map_sum id (smallestSize \<circ> fst)
          (testNThreads sample_7z (Some 2) ''/usr/bin/7z'' (Some ''64k'') (Some 8) (Some ''=off'') W3)
        = Inr (Inr (2, 14))"
    unfolding W3_def W2_def W1_def by code_simp
  from stage_result[OF this] obtain tinfo where
    4: "testNThreads sample_7z (Some 2) ''/usr/bin/7z'' (Some ''64k'') (Some 8) (Some ''=off'') W3
          = Inr (tinfo, W4)" "smallestSize tinfo = Inr (2, 14)"
    unfolding W4_def by blast
  obtain w' where
    5: "runCMD sample_7z ''/usr/bin/7z'' (Some ''64k'') (Some 8) (Some ''=off'') (Some 2) W4 = Inr w'"
    using runCMD_total by blast
  have "main sample_7z (sample_du ''50'') (Some 2) ''/usr/bin/7z'' stale_world
          = Inr (((''64k'', 14), (8, 14), (''=off'', 14), (2, 14)), w')"
    by (simp add: main_def 1 2 3 4 5)
  then show ?thesis by blast
qed

text \<open>
  Claim C8. \<open>removeArchives\<close> leaves no regular file whose name ends in \<^verbatim>\<open>.7z\<close>. In
  each of the four sweeps, an iteration that does not break records the total size for its
  candidate and hands the state after \<open>removeArchives\<close> to the rest of the loop, so the
  next candidate starts with no archive in the working directory. \<open>main\<close> removes the
  archives before the first sweep: the dictionary sweep runs from the cleaned state, an
  exception of that sweep is the result of \<open>main\<close>, and when \<open>main\<close> returns, each of its
  four sweeps has started and ended with no archive in the working directory and has
  handed its smallest entry on.
\<close>

theorem archives_removed_between_candidates:
  "archives (removeArchives w) = []
   \<and> (testAllDictSizes_break dsz largestDictSize = Inr False \<longrightarrow>
        (\<exists>w1. runCMD proc path_7z (Some dsz) None None None w = Inr w1
           \<and> testAllDictSizes_loop proc path_7z largestDictSize (dsz # drest) dinfo w
               = testAllDictSizes_loop proc path_7z largestDictSize drest
                   (dict_set dinfo dsz (getTotalSizeOfArchives w1)) (removeArchives w1)
           \<and> archives (removeArchives w1) = []))
   \<and> (\<exists>w1. runCMD proc path_7z dict_size (Some wsz) None None w = Inr w1
           \<and> testAllWordSizes_loop proc path_7z dict_size (wsz # wrest) winfo w
               = testAllWordSizes_loop proc path_7z dict_size wrest
                   (dict_set winfo wsz (getTotalSizeOfArchives w1)) (removeArchives w1)
           \<and> archives (removeArchives w1) = [])
   \<and> (testAllBlockSizes_break bsz largestBlockSize = Inr False \<longrightarrow>
        (\<exists>w1. runCMD proc path_7z dict_size word_size (Some bsz) None w = Inr w1
           \<and> testAllBlockSizes_loop proc path_7z dict_size word_size largestBlockSize (bsz # brest) binfo w
               = testAllBlockSizes_loop proc path_7z dict_size word_size largestBlockSize brest
                   (dict_set binfo bsz (getTotalSizeOfArchives w1)) (removeArchives w1)
           \<and> archives (removeArchives w1) = []))
   \<and> (\<exists>w1. runCMD proc path_7z dict_size word_size block_size (Some i) w = Inr w1
           \<and> testNThreads_loop proc path_7z dict_size word_size block_size (i # trest) tinfo w
               = testNThreads_loop proc path_7z dict_size word_size block_size trest
                   (dict_set tinfo i (getTotalSizeOfArchives w1)) (removeArchives w1)
           \<and> archives (removeArchives w1) = [])
   \<and> main proc du cpu_count path_7z w = main proc du cpu_count path_7z (removeArchives w)
   \<and> (testAllDictSizes proc du_e path_7z (removeArchives w_e) = Inl e \<longrightarrow>
        main proc du_e cpu_count path_7z w_e = Inl e)
   \<and> (main proc du_m cpu_count path_7z w_m = Inr ((dict_best, word_best, block_best, thread_best), w')
        \<longrightarrow>
        (\<exists>dict_info w1 word_info w2 block_info w3 thread_info w4.
           testAllDictSizes proc du_m path_7z (removeArchives w_m) = Inr (dict_info, w1)
         \<and> smallestSize dict_info = Inr dict_best \<and> archives w1 = []
         \<and> testAllWordSizes proc path_7z (Some (fst dict_best)) w1 = Inr (word_info, w2)
         \<and> smallestSize word_info = Inr word_best \<and> archives w2 = []
         \<and> testAllBlockSizes proc du_m path_7z (Some (fst dict_best)) (Some (fst word_best)) w2
              = Inr (block_info, w3)
         \<and> smallestSize block_info = Inr block_best \<and> archives w3 = []
         \<and> testNThreads proc cpu_count path_7z (Some (fst dict_best)) (Some (fst word_best))
                (Some (fst block_best)) w3 = Inr (thread_info, w4)
         \<and> smallestSize thread_info = Inr thread_best \<and> archives w4 = []
         \<and> runCMD proc path_7z (Some (fst dict_best)) (Some (fst word_best)) (Some (fst block_best))
                (Some (fst thread_best)) w4 = Inr w'))"
proof -
  have d: "\<exists>w1. runCMD proc path_7z (Some dsz) None None None w = Inr w1
           \<and> testAllDictSizes_loop proc path_7z largestDictSize (dsz # drest) dinfo w
               = testAllDictSizes_loop proc path_7z largestDictSize drest
                   (dict_set dinfo dsz (getTotalSizeOfArchives w1)) (removeArchives w1)
           \<and> archives (removeArchives w1) = []"
    if "testAllDictSizes_break dsz largestDictSize = Inr False"
  proof -
    obtain w1 where "runCMD proc path_7z (Some dsz) None None None w = Inr w1"
      using runCMD_total by blast
    with that show ?thesis by (simp add: archives_removeArchives)
  qed
  have ws: "\<exists>w1. runCMD proc path_7z dict_size (Some wsz) None None w = Inr w1
           \<and> testAllWordSizes_loop proc path_7z dict_size (wsz # wrest) winfo w
               = testAllWordSizes_loop proc path_7z dict_size wrest
                   (dict_set winfo wsz (getTotalSizeOfArchives w1)) (removeArchives w1)
           \<and> archives (removeArchives w1) = []"
  proof -
    obtain w1 where "runCMD proc path_7z dict_size (Some wsz) None None w = Inr w1"
      using runCMD_total by blast
    then show ?thesis by (simp add: archives_removeArchives)
  qed
  have b: "\<exists>w1. runCMD proc path_7z dict_size word_size (Some bsz) None w = Inr w1
           \<and> testAllBlockSizes_loop proc path_7z dict_size word_size largestBlockSize (bsz # brest) binfo w
               = testAllBlockSizes_loop proc path_7z dict_size word_size largestBlockSize brest
                   (dict_set binfo bsz (getTotalSizeOfArchives w1)) (removeArchives w1)
           \<and> archives (removeArchives w1) = []"
    if "testAllBlockSizes_break bsz largestBlockSize = Inr False"
  proof -
    obtain w1 where "runCMD proc path_7z dict_size word_size (Some bsz) None w = Inr w1"
      using runCMD_total by blast
    with that show ?thesis by (simp add: archives_removeArchives)
  qed
  have t: "\<exists>w1. runCMD proc path_7z dict_size word_size block_size (Some i) w = Inr w1
           \<and> testNThreads_loop proc path_7z dict_size word_size block_size (i # trest) tinfo w
               = testNThreads_loop proc path_7z dict_size word_size block_size trest
                   (dict_set tinfo i (getTotalSizeOfArchives w1)) (removeArchives w1)
           \<and> archives (removeArchives w1) = []"
  proof -
    obtain w1 where "runCMD proc path_7z dict_size word_size block_size (Some i) w = Inr w1"
      using runCMD_total by blast
    then show ?thesis by (simp add: archives_removeArchives)
  qed
  have m: "main proc du cpu_count path_7z w = main proc du cpu_count path_7z (removeArchives w)"
    by (simp add: main_after_removal)
  have a: "archives (removeArchives w) = []" by (rule archives_removeArchives)
  have me: "main proc du_e cpu_count path_7z w_e = Inl e"
    if "testAllDictSizes proc du_e path_7z (removeArchives w_e) = Inl e"
    using that by (rule main_first_sweep_error)
  have mt: "\<exists>dict_info w1 word_info w2 block_info w3 thread_info w4.
           testAllDictSizes proc du_m path_7z (removeArchives w_m) = Inr (dict_info, w1)
         \<and> smallestSize dict_info = Inr dict_best \<and> archives w1 = []
         \<and> testAllWordSizes proc path_7z (Some (fst dict_best)) w1 = Inr (word_info, w2)
         \<and> smallestSize word_info = Inr word_best \<and> archives w2 = []
         \<and> testAllBlockSizes proc du_m path_7z (Some (fst dict_best)) (Some (fst word_best)) w2
              = Inr (block_info, w3)
         \<and> smallestSize block_info = Inr block_best \<and> archives w3 = []
         \<and> testNThreads proc cpu_count path_7z (Some (fst dict_best)) (Some (fst word_best))
                (Some (fst block_best)) w3 = Inr (thread_info, w4)
         \<and> smallestSize thread_info = Inr thread_best \<and> archives w4 = []
         \<and> runCMD proc path_7z (Some (fst dict_best)) (Some (fst word_best)) (Some (fst block_best))
                (Some (fst thread_best)) w4 = Inr w'"
    if "main proc du_m cpu_count path_7z w_m
          = Inr ((dict_best, word_best, block_best, thread_best), w')"
    using that by (rule main_trace)
  have steps: "?thesis" if "True"
    using a d ws b t m me mt by blast
  then show ?thesis by simp
qed

theorem archives_removed_between_candidates_witness:
  "testAllDictSizes_break ''1m'' (Some 12) = Inr False
   \<and> testAllBlockSizes_break ''=on'' (Some 12) = Inr False
   \<and> (\<exists>w1. runCMD sample_7z ''/usr/bin/7z'' (Some ''1m'') None None None sample_world = Inr w1
          \<and> testAllDictSizes_loop sample_7z ''/usr/bin/7z'' (Some 12) [''1m'', ''2m''] [] sample_world
              = testAllDictSizes_loop sample_7z ''/usr/bin/7z'' (Some 12) [''2m'']
                  (dict_set [] ''1m'' (getTotalSizeOfArchives w1)) (removeArchives w1)
          \<and> archives w1 = [''A.7z'', ''B.7z'']
          \<and> archives (removeArchives w1) = [])
   \<and> (\<exists>w1. runCMD sample_7z ''/usr/bin/7z'' (Some ''1m'') (Some 8) (Some ''=on'') None sample_world = Inr w1
          \<and> testAllBlockSizes_loop sample_7z ''/usr/bin/7z'' (Some ''1m'') (Some 8) (Some 12)
                [''=on'', ''1m''] [] sample_world
              = testAllBlockSizes_loop sample_7z ''/usr/bin/7z'' (Some ''1m'') (Some 8) (Some 12) [''1m'']
                  (dict_set [] ''=on'' (getTotalSizeOfArchives w1)) (removeArchives w1)
          \<and> archives w1 = [''A.7z'', ''B.7z'']
          \<and> archives (removeArchives w1) = [])
   \<and> archives stale_world = [''old.7z'']
   \<and> testAllDictSizes sample_7z (sample_du ''1536'') ''/usr/bin/7z'' (removeArchives stale_world)
       = Inl TypeError
   \<and> main sample_7z (sample_du ''1536'') (Some 2) ''/usr/bin/7z'' stale_world = Inl TypeError
   \<and> (\<exists>w'. main sample_7z (sample_du ''50'') (Some 2) ''/usr/bin/7z'' stale_world
               = Inr (((''64k'', 14), (8, 14), (''=off'', 14), (2, 14)), w')
         \<and> (\<exists>dict_info w1 word_info w2 block_info w3 thread_info w4.
           testAllDictSizes sample_7z (sample_du ''50'') ''/usr/bin/7z'' (removeArchives stale_world)
             = Inr (dict_info, w1)
         \<and> smallestSize dict_info = Inr (''64k'', 14) \<and> archives w1 = []
         \<and> testAllWordSizes sample_7z ''/usr/bin/7z'' (Some ''64k'') w1 = Inr (word_info, w2)
         \<and> smallestSize word_info = Inr (8, 14) \<and> archives w2 = []
         \<and> testAllBlockSizes sample_7z (sample_du ''50'') ''/usr/bin/7z'' (Some ''64k'') (Some 8) w2
              = Inr (block_info, w3)
         \<and> smallestSize block_info = Inr (''=off'', 14) \<and> archives w3 = []
         \<and> testNThreads sample_7z (Some 2) ''/usr/bin/7z'' (Some ''64k'') (Some 8) (Some ''=off'') w3
              = Inr (thread_info, w4)
         \<and> smallestSize thread_info = Inr (2, 14) \<and> archives w4 = []
         \<and> runCMD sample_7z ''/usr/bin/7z'' (Some ''64k'') (Some 8) (Some ''=off'') (Some 2) w4
              = Inr w'))"
proof -
  have hd: "testAllDictSizes_break ''1m'' (Some 12) = Inr False" by code_simp
  have hb: "testAllBlockSizes_break ''=on'' (Some 12) = Inr False" by code_simp
  have ed: "map_sum id archives (runCMD sample_7z ''/usr/bin/7z'' (Some ''1m'') None None None sample_world)
              = Inr [''A.7z'', ''B.7z'']" by code_simp
  have eb: "map_sum id archives (runCMD sample_7z ''/usr/bin/7z'' (Some ''1m'') (Some 8) (Some ''=on'') None
              sample_world) = Inr [''A.7z'', ''B.7z'']" by code_simp
  have st: "archives stale_world = [''old.7z'']" by code_simp
  have he: "testAllDictSizes sample_7z (sample_du ''1536'') ''/usr/bin/7z'' (removeArchives stale_world)
              = Inl TypeError" by code_simp
  obtain w' where hm: "main sample_7z (sample_du ''50'') (Some 2) ''/usr/bin/7z'' stale_world
               = Inr (((''64k'', 14), (8, 14), (''=off'', 14), (2, 14)), w')"
    using main_stale_sample by blast
  note inst = archives_removed_between_candidates[where w = sample_world and dsz = "''1m''"
      and largestDictSize = "Some 12" and proc = sample_7z and ?path_7z = "''/usr/bin/7z''"
      and drest = "[''2m'']" and dinfo = "[]" and dict_size = "Some ''1m''" and bsz = "''=on''"
      and largestBlockSize = "Some 12" and word_size = "Some 8" and brest = "[''1m'']"
      and binfo = "[]" and du_e = "sample_du ''1536''" and w_e = stale_world and e = TypeError
      and cpu_count = "Some 2" and du_m = "sample_du ''50''" and w_m = stale_world
      and dict_best = "(''64k'', 14)" and word_best = "(8, 14)" and block_best = "(''=off'', 14)"
      and thread_best = "(2, 14)" and w' = w']
  from inst hd obtain w1 where
    d: "runCMD sample_7z ''/usr/bin/7z'' (Some ''1m'') None None None sample_world = Inr w1"
       "testAllDictSizes_loop sample_7z ''/usr/bin/7z'' (Some 12) [''1m'', ''2m''] [] sample_world
              = testAllDictSizes_loop sample_7z ''/usr/bin/7z'' (Some 12) [''2m'']
                  (dict_set [] ''1m'' (getTotalSizeOfArchives w1)) (removeArchives w1)"
       "archives (removeArchives w1) = []" by blast
  from inst hb obtain w2 where
    b: "runCMD sample_7z ''/usr/bin/7z'' (Some ''1m'') (Some 8) (Some ''=on'') None sample_world = Inr w2"
       "testAllBlockSizes_loop sample_7z ''/usr/bin/7z'' (Some ''1m'') (Some 8) (Some 12)
                [''=on'', ''1m''] [] sample_world
              = testAllBlockSizes_loop sample_7z ''/usr/bin/7z'' (Some ''1m'') (Some 8) (Some 12) [''1m'']
                  (dict_set [] ''=on'' (getTotalSizeOfArchives w2)) (removeArchives w2)"
       "archives (removeArchives w2) = []" by blast
  from ed d(1) have ad: "archives w1 = [''A.7z'', ''B.7z'']" by simp
  from eb b(1) have ab: "archives w2 = [''A.7z'', ''B.7z'']" by simp
  note main_error = inst[THEN conjunct2, THEN conjunct2, THEN conjunct2, THEN conjunct2,
      THEN conjunct2, THEN conjunct2, THEN conjunct1]
  note main_chain = inst[THEN conjunct2, THEN conjunct2, THEN conjunct2, THEN conjunct2,
      THEN conjunct2, THEN conjunct2, THEN conjunct2]
  from main_error he have me: "main sample_7z (sample_du ''1536'') (Some 2) ''/usr/bin/7z'' stale_world
                           = Inl TypeError" by (rule mp)
  from main_chain hm have "\<exists>dict_info w1 word_info w2 block_info w3 thread_info w4.
           testAllDictSizes sample_7z (sample_du ''50'') ''/usr/bin/7z'' (removeArchives stale_world)
             = Inr (dict_info, w1)
         \<and> smallestSize dict_info = Inr (''64k'', 14) \<and> archives w1 = []
         \<and> testAllWordSizes sample_7z ''/usr/bin/7z'' (Some (fst (''64k'', 14::int))) w1
              = Inr (word_info, w2)
         \<and> smallestSize word_info = Inr (8, 14) \<and> archives w2 = []
         \<and> testAllBlockSizes sample_7z (sample_du ''50'') ''/usr/bin/7z'' (Some (fst (''64k'', 14::int)))
                (Some (fst (8::int, 14::int))) w2
              = Inr (block_info, w3)
         \<and> smallestSize block_info = Inr (''=off'', 14) \<and> archives w3 = []
         \<and> testNThreads sample_7z (Some 2) ''/usr/bin/7z'' (Some (fst (''64k'', 14::int)))
                (Some (fst (8::int, 14::int))) (Some (fst (''=off'', 14::int))) w3
              = Inr (thread_info, w4)
         \<and> smallestSize thread_info = Inr (2, 14) \<and> archives w4 = []
         \<and> runCMD sample_7z ''/usr/bin/7z'' (Some (fst (''64k'', 14::int)))
                (Some (fst (8::int, 14::int))) (Some (fst (''=off'', 14::int)))
                (Some (fst (2::int, 14::int))) w4
              = Inr w'"
    by (rule mp)
  then have mt: "\<exists>dict_info w1 word_info w2 block_info w3 thread_info w4.
           testAllDictSizes sample_7z (sample_du ''50'') ''/usr/bin/7z'' (removeArchives stale_world)
             = Inr (dict_info, w1)
         \<and> smallestSize dict_info = Inr (''64k'', 14) \<and> archives w1 = []
         \<and> testAllWordSizes sample_7z ''/usr/bin/7z'' (Some ''64k'') w1 = Inr (word_info, w2)
         \<and> smallestSize word_info = Inr (8, 14) \<and> archives w2 = []
         \<and> testAllBlockSizes sample_7z (sample_du ''50'') ''/usr/bin/7z'' (Some ''64k'') (Some 8) w2
              = Inr (block_info, w3)
         \<and> smallestSize block_info = Inr (''=off'', 14) \<and> archives w3 = []
         \<and> testNThreads sample_7z (Some 2) ''/usr/bin/7z'' (Some ''64k'') (Some 8) (Some ''=off'') w3
              = Inr (thread_info, w4)
         \<and> smallestSize thread_info = Inr (2, 14) \<and> archives w4 = []
         \<and> runCMD sample_7z ''/usr/bin/7z'' (Some ''64k'') (Some 8) (Some ''=off'') (Some 2) w4
              = Inr w'"
    by (simp only: fst_conv)
  have p1: "\<exists>w1. runCMD sample_7z ''/usr/bin/7z'' (Some ''1m'') None None None sample_world = Inr w1
          \<and> testAllDictSizes_loop sample_7z ''/usr/bin/7z'' (Some 12) [''1m'', ''2m''] [] sample_world
              = testAllDictSizes_loop sample_7z ''/usr/bin/7z'' (Some 12) [''2m'']
                  (dict_set [] ''1m'' (getTotalSizeOfArchives w1)) (removeArchives w1)
          \<and> archives w1 = [''A.7z'', ''B.7z'']
          \<and> archives (removeArchives w1) = []"
    using d ad by blast
  have p2: "\<exists>w1. runCMD sample_7z ''/usr/bin/7z'' (Some ''1m'') (Some 8) (Some ''=on'') None sample_world = Inr w1
          \<and> testAllBlockSizes_loop sample_7z ''/usr/bin/7z'' (Some ''1m'') (Some 8) (Some 12)
                [''=on'', ''1m''] [] sample_world
              = testAllBlockSizes_loop sample_7z ''/usr/bin/7z'' (Some ''1m'') (Some 8) (Some 12) [''1m'']
                  (dict_set [] ''=on'' (getTotalSizeOfArchives w1)) (removeArchives w1)
          \<and> archives w1 = [''A.7z'', ''B.7z'']
          \<and> archives (removeArchives w1) = []"
    using b ab by blast
  have p3: "\<exists>w'. main sample_7z (sample_du ''50'') (Some 2) ''/usr/bin/7z'' stale_world
               = Inr (((''64k'', 14), (8, 14), (''=off'', 14), (2, 14)), w')
         \<and> (\<exists>dict_info w1 word_info w2 block_info w3 thread_info w4.
           testAllDictSizes sample_7z (sample_du ''50'') ''/usr/bin/7z'' (removeArchives stale_world)
             = Inr (dict_info, w1)
         \<and> smallestSize dict_info = Inr (''64k'', 14) \<and> archives w1 = []
         \<and> testAllWordSizes sample_7z ''/usr/bin/7z'' (Some ''64k'') w1 = Inr (word_info, w2)
         \<and> smallestSize word_info = Inr (8, 14) \<and> archives w2 = []
         \<and> testAllBlockSizes sample_7z (sample_du ''50'') ''/usr/bin/7z'' (Some ''64k'') (Some 8) w2
              = Inr (block_info, w3)
         \<and> smallestSize block_info = Inr (''=off'', 14) \<and> archives w3 = []
         \<and> testNThreads sample_7z (Some 2) ''/usr/bin/7z'' (Some ''64k'') (Some 8) (Some ''=off'') w3
              = Inr (thread_info, w4)
         \<and> smallestSize thread_info = Inr (2, 14) \<and> archives w4 = []
         \<and> runCMD sample_7z ''/usr/bin/7z'' (Some ''64k'') (Some 8) (Some ''=off'') (Some 2) w4
              = Inr w')"
    using hm mt by blast
  show ?thesis
    by (intro conjI) (rule hd hb p1 p2 st he me p3)+
qed

section \<open>The two venv filters\<close>

lemma getLargestDirectorySize_loop_skip:
  assumes "2 \<le> length (py_split line)" and "py_in ''venv'' (py_split line ! 1)"
  shows "getLargestDirectorySize_loop (before @ line # after) sizes
           = getLargestDirectorySize_loop (before @ after) sizes"
proof (induction before arbitrary: sizes)
  case Nil
  from assms show ?case by (simp add: Let_def)
next
  case (Cons l ls)
  show ?case by (simp add: Let_def Cons.IH split: sum.splits)
qed

lemma directories_member:
  assumes "(name, n) \<in> set es" and "is_dir n" and "\<not> startswith name ''.''" and "name \<noteq> ''venv''"
  shows "name \<in> set (directories es)"
proof -
  let ?P = "\<lambda>(name, n). is_dir n \<and> \<not> startswith name ''.'' \<and> name \<noteq> ''venv''"
  from assms have "(name, n) \<in> set (filter ?P es)" by simp
  then have "fst (name, n) \<in> fst ` set (filter ?P es)" by (rule imageI)
  then show ?thesis by (simp add: directories_def)
qed

lemma venv_not_listed: "''venv'' \<notin> set (directories es)"
proof
  assume "''venv'' \<in> set (directories es)"
  then obtain n where "(''venv'', n) \<in> set (filter (\<lambda>(name, n). is_dir n \<and> \<not> startswith name ''.'' \<and> name \<noteq> ''venv'') es)"
    unfolding directories_def by fastforce
  then show False by simp
qed

lemma split_loop_nospace:
  "\<forall>c \<in> set xs. \<not> isspace c \<Longrightarrow> split_loop cur (xs @ rest) = split_loop (cur @ xs) rest"
  by (induction xs arbitrary: cur) simp_all

lemma isspace_tab: "isspace (CHR 0x09)"
  by code_simp

lemma isspace_slash: "\<not> isspace CHR ''/''"
  by code_simp

lemma py_split_du_line:
  assumes "megabytes \<noteq> []" and "\<forall>c \<in> set megabytes. \<not> isspace c"
    and "\<forall>c \<in> set name. \<not> isspace c"
  shows "py_split (megabytes @ [CHR 0x09] @ name @ ''/'') = [megabytes, name @ ''/'']"
proof -
  have n: "\<forall>c \<in> set (name @ ''/''). \<not> isspace c" using assms(3) isspace_slash by simp
  have "py_split (megabytes @ [CHR 0x09] @ name @ ''/'')
          = split_loop megabytes (CHR 0x09 # (name @ ''/''))"
    using split_loop_nospace[OF assms(2), of "[]" "CHR 0x09 # (name @ ''/'')"]
    by (simp add: py_split_def)
  also have "\<dots> = megabytes # split_loop [] ((name @ ''/'') @ [])"
    using assms(1) isspace_tab by simp
  also have "split_loop [] ((name @ ''/'') @ []) = split_loop ([] @ (name @ ''/'')) []"
    using n by (rule split_loop_nospace)
  also have "\<dots> = [name @ ''/'']" by simp
  finally show ?thesis .
qed

lemma startswith_append: "startswith s sub \<Longrightarrow> startswith (s @ t) sub"
  by (metis append.assoc append_eq_conv_conj append_take_drop_id startswith_def)

lemma py_in_empty: "py_in [] s"
  by (cases s) (simp_all add: startswith_def)

lemma py_in_append: "py_in sub s \<Longrightarrow> py_in sub (s @ t)"
proof (induction s)
  case Nil
  then show ?case by (simp add: py_in_empty)
next
  case (Cons c s)
  then show ?case using startswith_append[of "c # s" sub t] by auto
qed


lemma spec_command_eq:
  "(\<lambda>name. ([path_7z, ''a'', ''-mx9'']
          @ (case flag_str ''-md'' dict_size of None \<Rightarrow> [] | Some f \<Rightarrow> [f])
          @ (case flag_int ''-mfb'' word_size of None \<Rightarrow> [] | Some f \<Rightarrow> [f])
          @ (case flag_str ''-ms'' block_size of None \<Rightarrow> [] | Some f \<Rightarrow> [f])
          @ (case flag_int ''-mmt'' threads of None \<Rightarrow> [] | Some f \<Rightarrow> [f])
          @ [''--'']) @ [name @ ''.7z'', name])
     = spec_command path_7z dict_size word_size block_size threads"
  by (rule ext) (simp add: spec_command_def flag_str_spec flag_int_spec)

lemma runCMD_compresses_listed:
  assumes "path_7z \<noteq> ''--''" and "name \<in> set (directories (entries w))"
  shows "\<exists>w'. runCMD proc path_7z dict_size word_size block_size threads w = Inr w'
           \<and> spec_command path_7z dict_size word_size block_size threads name \<in> set (calls w')"
proof -
  let ?cmd = "[path_7z, ''a'', ''-mx9'']
          @ (case flag_str ''-md'' dict_size of None \<Rightarrow> [] | Some f \<Rightarrow> [f])
          @ (case flag_int ''-mfb'' word_size of None \<Rightarrow> [] | Some f \<Rightarrow> [f])
          @ (case flag_str ''-ms'' block_size of None \<Rightarrow> [] | Some f \<Rightarrow> [f])
          @ (case flag_int ''-mmt'' threads of None \<Rightarrow> [] | Some f \<Rightarrow> [f])
          @ [''--'']"
  let ?w' = "snd (runCMD_loop proc (directories (entries w)) ?cmd w)"
  have r: "runCMD proc path_7z dict_size word_size block_size threads w = Inr ?w'"
    using assms(1) by (rule runCMD_Inr)
  have "calls ?w' = calls w @ map (\<lambda>name. ?cmd @ [name @ ''.7z'', name]) (directories (entries w))"
    using runCMD_loop_calls[of proc "directories (entries w)" ?cmd w] by blast
  then have c: "calls ?w' = calls w
      @ map (spec_command path_7z dict_size word_size block_size threads) (directories (entries w))"
    unfolding spec_command_eq .
  have "spec_command path_7z dict_size word_size block_size threads name \<in> set (calls ?w')"
    unfolding c using assms(2) by simp
  with r show ?thesis by blast
qed

text \<open>
  Claim C10, as the code has it. The probe reads the path of a line as its second field
  and skips the line when that field contains \<^verbatim>\<open>venv\<close>; the listing leaves out the
  names that start with a dot and the name \<^verbatim>\<open>venv\<close>. So a directory whose name contains
  \<^verbatim>\<open>venv\<close>, is not \<^verbatim>\<open>venv\<close>, does not start with a dot and has no white space is
  listed and compressed by \<open>runCMD\<close>, while its line of the probe, size, tabulator,
  name and slash, changes nothing in the largest directory size.
\<close>

theorem venv_in_name_compressed_not_probed:
  assumes "py_in ''venv'' name" and "name \<noteq> ''venv''" and "\<not> startswith name ''.''"
    and "\<forall>c \<in> set name. \<not> isspace c"
    and "megabytes \<noteq> []" and "\<forall>c \<in> set megabytes. \<not> isspace c"
    and "(name, Directory) \<in> set (entries w)"
    and "du (entries w) = before @ (megabytes @ [CHR 0x09] @ name @ ''/'') # after"
    and "du' (entries w) = before @ after"
    and "path_7z \<noteq> ''--''"
  shows "name \<in> set (directories (entries w))
         \<and> (\<exists>w'. runCMD proc path_7z dict_size word_size block_size threads w = Inr w'
               \<and> spec_command path_7z dict_size word_size block_size threads name \<in> set (calls w'))
         \<and> getLargestDirectorySize du w = getLargestDirectorySize du' w
         \<and> ''venv'' \<notin> set (directories (entries w))"
proof -
  let ?line = "megabytes @ [CHR 0x09] @ name @ ''/''"
  have d: "is_dir Directory" by simp
  have 1: "name \<in> set (directories (entries w))"
    using assms(7) d assms(3) assms(2) by (rule directories_member)
  have 2: "\<exists>w'. runCMD proc path_7z dict_size word_size block_size threads w = Inr w'
               \<and> spec_command path_7z dict_size word_size block_size threads name \<in> set (calls w')"
    using assms(10) 1 by (rule runCMD_compresses_listed)
  have s: "py_split ?line = [megabytes, name @ ''/'']"
    using assms(5) assms(6) assms(4) by (rule py_split_du_line)
  have f1: "2 \<le> length (py_split ?line)" unfolding s by simp
  have f2: "py_in ''venv'' (py_split ?line ! 1)"
    unfolding s using py_in_append[OF assms(1), of "''/''"] by simp
  have "getLargestDirectorySize_loop (du (entries w)) []
          = getLargestDirectorySize_loop (du' (entries w)) []"
    unfolding assms(8) assms(9) using f1 f2 by (rule getLargestDirectorySize_loop_skip)
  then have 3: "getLargestDirectorySize du w = getLargestDirectorySize du' w"
    by (simp add: getLargestDirectorySize_def)
  have 4: "''venv'' \<notin> set (directories (entries w))" by (rule venv_not_listed)
  from 1 2 3 4 show ?thesis by blast
qed

theorem venv_in_name_compressed_not_probed_witness:
  "py_in ''venv'' ''my-venv'' \<and> ''my-venv'' \<noteq> ''venv'' \<and> \<not> startswith ''my-venv'' ''.''
   \<and> filter isspace ''my-venv'' = []
   \<and> ''300'' \<noteq> [] \<and> filter isspace ''300'' = []
   \<and> ''/usr/bin/7z'' \<noteq> ''--''
   \<and> ''my-venv'' \<in> set (directories
         [(''A'', Directory), (''my-venv'', Directory), (''venv'', Directory)])
   \<and> (\<exists>w'. runCMD sample_7z ''/usr/bin/7z'' (Some ''1m'') None None None
                \<lparr>entries = [(''A'', Directory), (''my-venv'', Directory), (''venv'', Directory)],
                  calls = []\<rparr> = Inr w'
          \<and> [''/usr/bin/7z'', ''a'', ''-mx9'', ''-md1m'', ''--'', ''my-venv.7z'', ''my-venv'']
                \<in> set (calls w'))
   \<and> getLargestDirectorySize
         (lines_du [''1'' @ [CHR 0x09] @ ''A/'', ''300'' @ [CHR 0x09] @ ''my-venv'' @ ''/''])
         \<lparr>entries = [(''A'', Directory), (''my-venv'', Directory), (''venv'', Directory)],
           calls = []\<rparr> = Inr 1"
proof -
  let ?w = "\<lparr>entries = [(''A'', Directory), (''my-venv'', Directory), (''venv'', Directory)],
              calls = ([] :: string list list)\<rparr>"
  let ?du = "lines_du [''1'' @ [CHR 0x09] @ ''A/'', ''300'' @ [CHR 0x09] @ ''my-venv'' @ ''/'']"
  let ?du' = "lines_du [''1'' @ [CHR 0x09] @ ''A/'']"
  have h1: "py_in ''venv'' ''my-venv''" by code_simp
  have h2: "''my-venv'' \<noteq> ''venv''" by simp
  have h3: "\<not> startswith ''my-venv'' ''.''" by code_simp
  have h4: "\<forall>c \<in> set ''my-venv''. \<not> isspace c" by code_simp
  have h5: "''300'' \<noteq> []" by simp
  have h6: "\<forall>c \<in> set ''300''. \<not> isspace c" by code_simp
  have n4: "filter isspace ''my-venv'' = []" by code_simp
  have n6: "filter isspace ''300'' = []" by code_simp
  have h7: "(''my-venv'', Directory) \<in> set (entries ?w)" by simp
  have h8: "?du (entries ?w)
              = [''1'' @ [CHR 0x09] @ ''A/''] @ (''300'' @ [CHR 0x09] @ ''my-venv'' @ ''/'') # []"
    by (simp add: lines_du_def)
  have h9: "?du' (entries ?w) = [''1'' @ [CHR 0x09] @ ''A/''] @ []"
    by (simp add: lines_du_def)
  have h10: "''/usr/bin/7z'' \<noteq> ''--''" by simp
  have v: "getLargestDirectorySize ?du' ?w = Inr 1" by code_simp
  have c: "spec_command ''/usr/bin/7z'' (Some ''1m'') None None None ''my-venv''
             = [''/usr/bin/7z'', ''a'', ''-mx9'', ''-md1m'', ''--'', ''my-venv.7z'', ''my-venv'']"
    by (simp add: spec_command_def)
  note inst = venv_in_name_compressed_not_probed[where name = "''my-venv''" and megabytes = "''300''"
      and w = ?w and du = ?du and du' = ?du' and before = "[''1'' @ [CHR 0x09] @ ''A/'']"
      and after = "[]" and ?path_7z = "''/usr/bin/7z''" and proc = sample_7z
      and dict_size = "Some ''1m''" and word_size = None and block_size = None and threads = None]
  from inst[OF h1 h2 h3 h4 h5 h6 h7 h8 h9 h10]
  have "''my-venv'' \<in> set (directories (entries ?w))"
    and "\<exists>w'. runCMD sample_7z ''/usr/bin/7z'' (Some ''1m'') None None None ?w = Inr w'
           \<and> spec_command ''/usr/bin/7z'' (Some ''1m'') None None None ''my-venv'' \<in> set (calls w')"
    and "getLargestDirectorySize ?du ?w = getLargestDirectorySize ?du' ?w"
    by blast+
  with v c h1 h2 h3 n4 h5 n6 h10 show ?thesis by simp
qed

text \<open>
  Claim C10 as stated fails. The directory \<^verbatim>\<open>.venv\<close> contains \<^verbatim>\<open>venv\<close> and is not
  \<^verbatim>\<open>venv\<close>, and it is not listed. The path \<^verbatim>\<open>my venv/\<close> contains \<^verbatim>\<open>venv\<close>, and
  its line raises the largest directory size from 1 to 3.
\<close>

theorem venv_claim_fails_for_hidden_and_spaced_names:
  "py_in ''venv'' ''.venv'' \<and> ''.venv'' \<noteq> ''venv''
   \<and> ''.venv'' \<notin> set (directories [(''A'', Directory), (''.venv'', Directory)])
   \<and> py_in ''venv'' ''my venv/''
   \<and> getLargestDirectorySize
         (lines_du [''1'' @ [CHR 0x09] @ ''A/'', ''3'' @ [CHR 0x09] @ ''my venv/'']) sample_world
       = Inr 3
   \<and> getLargestDirectorySize (lines_du [''1'' @ [CHR 0x09] @ ''A/'']) sample_world = Inr 1"
  by code_simp

section \<open>The dictionary sweep under a small bound\<close>

lemma dictsize_has_m:
  "py_in ''m'' ''64k'' = False" "py_in ''m'' ''1m''" "py_in ''m'' ''2m''" "py_in ''m'' ''3m''"
  "py_in ''m'' ''4m''" "py_in ''m'' ''6m''" "py_in ''m'' ''8m''" "py_in ''m'' ''12m''"
  "py_in ''m'' ''16m''" "py_in ''m'' ''24m''" "py_in ''m'' ''32m''" "py_in ''m'' ''48m''"
  by code_simp+

lemma dictsize_int:
  "py_int ''64'' = Inr 64" "py_int ''1'' = Inr 1"
  "py_int ''2'' = Inr 2" "py_int ''3'' = Inr 3"
  "py_int ''4'' = Inr 4" "py_int ''6'' = Inr 6"
  "py_int ''8'' = Inr 8" "py_int ''12'' = Inr 12"
  "py_int ''16'' = Inr 16" "py_int ''24'' = Inr 24"
  "py_int ''32'' = Inr 32" "py_int ''48'' = Inr 48"
  by code_simp+

lemma minimumLargestDictSize_loop_below_48:
  assumes "largest < 48"
  shows "\<exists>b. minimumLargestDictSize_loop values_dictsize largest = Inr (Some b) \<and> b \<le> 48"
  using assms by (simp add: values_dictsize_def dictsize_has_m dictsize_int del: py_in.simps)

text \<open>
  Claim C1, at the inputs where the code departs from it. The test of the dictionary sweep
  is made for every candidate, \<^verbatim>\<open>64k\<close> too, and reads it as 64. Whenever the largest
  directory is smaller than 48 megabytes the bound is at most 48, the loop breaks at
  \<^verbatim>\<open>64k\<close>, and the sweep returns the empty table without a single compressor run.
\<close>

theorem dict_sweep_empty_below_48:
  assumes "getLargestDirectorySize du w = Inr largest" and "largest < 48"
  shows "testAllDictSizes proc du path_7z w = Inr ([], w)"
proof -
  from minimumLargestDictSize_loop_below_48[OF assms(2)] obtain b where
    b: "minimumLargestDictSize_loop values_dictsize largest = Inr (Some b)" "b \<le> 48" by blast
  have m: "minimumLargestDictSize du w = Inr (Some b)"
    using assms(1) b(1) by (simp add: minimumLargestDictSize_def)
  have "testAllDictSizes_break ''64k'' (Some b) = Inr True"
    using b(2) by (simp add: testAllDictSizes_break_def dictsize_int)
  then have "testAllDictSizes_loop proc path_7z (Some b) values_dictsize [] w = Inr ([], w)"
    by (simp add: values_dictsize_def)
  with m show ?thesis by (simp add: testAllDictSizes_def)
qed

theorem dict_sweep_empty_below_48_witness:
  "getLargestDirectorySize (sample_du ''10'') sample_world = Inr 10 \<and> (10::int) < 48
   \<and> testAllDictSizes sample_7z (sample_du ''10'') ''/usr/bin/7z'' sample_world = Inr ([], sample_world)"
proof -
  have h: "getLargestDirectorySize (sample_du ''10'') sample_world = Inr 10" by code_simp
  have l: "(10::int) < 48" by simp
  from dict_sweep_empty_below_48[OF h l] h l show ?thesis by simp
qed

section \<open>The block sweep without a bound\<close>

lemma blocksize_none_from_1024:
  assumes "1024 \<le> largest"
  shows "minimumLargestBlockSize_loop sizes largest = Inr None"
  using assms by (induction sizes) simp_all

lemma block_break_head:
  "testAllBlockSizes_break ''=off'' None = Inr False"
  "testAllBlockSizes_break ''=on'' None = Inr False"
  "testAllBlockSizes_break ''1m'' None = Inl TypeError"
  by code_simp+

text \<open>
  Claim C3, at the inputs where the code departs from it. From 1024 megabytes on,
  \<open>minimumLargestBlockSize\<close> returns \<^verbatim>\<open>None\<close>, and the block sweep raises TypeError when
  it compares the first megabyte candidate with it, after the runs for \<^verbatim>\<open>=off\<close> and
  \<^verbatim>\<open>=on\<close>: no table is returned.
\<close>

theorem block_sweep_raises_from_1024:
  assumes "getLargestDirectorySize du w = Inr largest" and "1024 \<le> largest"
  shows "minimumLargestBlockSize du w = Inr None
         \<and> testAllBlockSizes proc du path_7z dict_size word_size w = Inl TypeError"
proof -
  have m: "minimumLargestBlockSize du w = Inr None"
    using assms by (simp add: minimumLargestBlockSize_def blocksize_none_from_1024)
  obtain w1 where r1: "runCMD proc path_7z dict_size word_size (Some ''=off'') None w = Inr w1"
    using runCMD_total by blast
  obtain w2 where r2: "runCMD proc path_7z dict_size word_size (Some ''=on'') None (removeArchives w1) = Inr w2"
    using runCMD_total by blast
  have "testAllBlockSizes_loop proc path_7z dict_size word_size None values_blocksize [] w = Inl TypeError"
    by (simp add: values_blocksize_def block_break_head r1 r2)
  with m show ?thesis by (simp add: testAllBlockSizes_def)
qed

theorem block_sweep_raises_from_1024_witness:
  "getLargestDirectorySize (sample_du ''1024'') sample_world = Inr 1024 \<and> (1024::int) \<le> 1024
   \<and> minimumLargestBlockSize (sample_du ''1024'') sample_world = Inr None
   \<and> testAllBlockSizes sample_7z (sample_du ''1024'') ''/usr/bin/7z'' (Some ''1m'') (Some 8) sample_world
       = Inl TypeError"
proof -
  have h: "getLargestDirectorySize (sample_du ''1024'') sample_world = Inr 1024" by code_simp
  have l: "(1024::int) \<le> 1024" by simp
  from block_sweep_raises_from_1024[OF h l] h l show ?thesis by simp
qed

section \<open>The block sweep at 500 megabytes\<close>

lemma testAllBlockSizes_loop_no_break:
  assumes "\<forall>sz \<in> set cs. testAllBlockSizes_break sz bound = Inr False"
    and "distinct cs" and "set cs \<inter> set (dict_keys info) = {}"
  shows "\<exists>info' w'. testAllBlockSizes_loop proc path_7z d ws bound cs info w = Inr (info', w')
           \<and> dict_keys info' = dict_keys info @ cs"
  using assms
proof (induction cs arbitrary: info w)
  case Nil
  show ?case by simp
next
  case (Cons sz rest)
  obtain w1 where r: "runCMD proc path_7z d ws (Some sz) None w = Inr w1"
    using runCMD_total by blast
  let ?info = "dict_set info sz (getTotalSizeOfArchives w1)"
  have nb: "testAllBlockSizes_break sz bound = Inr False" using Cons.prems(1) by simp
  have k: "dict_keys ?info = dict_keys info @ [sz]"
    using Cons.prems(3) by (simp add: dict_keys_dict_set)
  have "\<forall>sz \<in> set rest. testAllBlockSizes_break sz bound = Inr False"
    and "distinct rest" and "set rest \<inter> set (dict_keys ?info) = {}"
    using Cons.prems k by auto
  from Cons.IH[OF this, of "removeArchives w1"] obtain info' w' where
    "testAllBlockSizes_loop proc path_7z d ws bound rest ?info (removeArchives w1) = Inr (info', w')"
    "dict_keys info' = dict_keys ?info @ rest" by blast
  with r k nb show ?case by simp
qed

lemma blocksize_bound_500: "minimumLargestBlockSize_loop values_blocksize 500 = Inr (Some 512)"
  by code_simp

lemma blocksize_no_break_512:
  "\<forall>sz \<in> set values_blocksize. testAllBlockSizes_break sz (Some 512) = Inr False"
  by code_simp

lemma distinct_values_blocksize: "distinct values_blocksize"
  by code_simp

text \<open>
  Claim C2, as the code has it. With a largest directory of 500 megabytes the bound of the
  block sweep is 512, the first megabyte value above 500, and the loop breaks only at a
  megabyte candidate above the bound: it does not break at \<^verbatim>\<open>512m\<close>, and both
  \<^verbatim>\<open>256m\<close> and \<^verbatim>\<open>512m\<close> are keys of the result table.
\<close>

theorem block_sweep_500_includes_512m:
  assumes "getLargestDirectorySize du w = Inr 500"
  shows "minimumLargestBlockSize du w = Inr (Some 512)
         \<and> testAllBlockSizes_break ''512m'' (Some 512) = Inr False
         \<and> (\<exists>info w'. testAllBlockSizes proc du path_7z dict_size word_size w = Inr (info, w')
               \<and> ''256m'' \<in> set (dict_keys info) \<and> ''512m'' \<in> set (dict_keys info))"
proof -
  have m: "minimumLargestBlockSize du w = Inr (Some 512)"
    using assms by (simp add: minimumLargestBlockSize_def blocksize_bound_500)
  have e: "set values_blocksize \<inter> set (dict_keys ([] :: (string, int) dict)) = {}"
    by (simp add: dict_keys_def)
  from testAllBlockSizes_loop_no_break[OF blocksize_no_break_512 distinct_values_blocksize e]
  obtain info w' where
    l: "testAllBlockSizes_loop proc path_7z dict_size word_size (Some 512) values_blocksize [] w
          = Inr (info, w')"
    and k: "dict_keys info = dict_keys ([] :: (string, int) dict) @ values_blocksize" by blast
  have t: "testAllBlockSizes proc du path_7z dict_size word_size w = Inr (info, w')"
    using m l by (simp add: testAllBlockSizes_def)
  have k': "dict_keys info = values_blocksize" using k by (simp add: dict_keys_def)
  have in256: "''256m'' \<in> set values_blocksize" by code_simp
  have in512: "''512m'' \<in> set values_blocksize" by code_simp
  have b: "testAllBlockSizes_break ''512m'' (Some 512) = Inr False" by code_simp
  from m t k' in256 in512 b show ?thesis by simp
qed

theorem block_sweep_500_includes_512m_witness:
  "getLargestDirectorySize (sample_du ''500'') sample_world = Inr 500
   \<and> minimumLargestBlockSize (sample_du ''500'') sample_world = Inr (Some 512)
   \<and> (\<exists>info w'. testAllBlockSizes sample_7z (sample_du ''500'') ''/usr/bin/7z'' (Some ''1m'') (Some 8)
                    sample_world = Inr (info, w')
         \<and> ''256m'' \<in> set (dict_keys info) \<and> ''512m'' \<in> set (dict_keys info))"
proof -
  have h: "getLargestDirectorySize (sample_du ''500'') sample_world = Inr 500" by code_simp
  from block_sweep_500_includes_512m[OF h] h show ?thesis by simp
qed

text \<open>
  Claim C2 as stated fails: in the sample environment with 500 megabytes the result table
  of the block sweep has the key \<^verbatim>\<open>512m\<close>.
\<close>

theorem block_sweep_500_runs_512m:
  "getLargestDirectorySize (sample_du ''500'') sample_world = Inr 500
   \<and> map_sum id (dict_keys \<circ> fst)
        (testAllBlockSizes sample_7z (sample_du ''500'') ''/usr/bin/7z'' (Some ''1m'') (Some 8)
           sample_world)
     = Inr [''=off'', ''=on'', ''1m'', ''2m'', ''3m'', ''4m'', ''6m'', ''8m'', ''12m'', ''16m'',
            ''32m'', ''64m'', ''128m'', ''256m'', ''512m'', ''1g'', ''2g'', ''4g'', ''8g'', ''16g'',
            ''32g'', ''64g'']"
  by code_simp

end
